theory Spec2Isabelle
  imports Complex_Main "HOL-Library.Word"
begin

unbundle bit_operations_syntax

section \<open>The scene panel of the editor (src/editor/panels/scene.c)\<close>

text \<open>
  The panel keeps a free-fly camera in file-level globals, turns pointer motion into
  yaw and pitch (\<open>scene_processevent\<close>), moves the camera and renders the world into
  an offscreen texture (\<open>scene_update\<close>), and shows that texture in an ImGui window
  (\<open>scene_render\<close>).

  Numbers. The C types \<open>float\<close> and \<open>double\<close> are read as \<^typ>\<open>real\<close>: every
  formula of the source is taken in exact arithmetic, \<open>sin\<close>, \<open>cos\<close> and \<open>sqrt\<close>
  are the mathematical functions, and neither rounding nor overflow, infinities or NaN
  are represented. The two assignments to yaw and pitch are given a second time in
  IEEE arithmetic (\<open>scene_processevent_ieee\<close>), for what depends on the rounding of a
  \<open>float\<close>. The integer fields of an SDL event are 32-bit words, read signed where
  SDL declares them \<open>Sint32\<close>.
\<close>

subsection \<open>cglm: the vector operations the panel calls\<close>

text \<open>
  cglm is a library outside the repository; a \<open>vec3\<close> is \<open>float[3]\<close>. Each function
  below returns the value the C function writes to its destination argument.
\<close>

type_synonym vec3 = "real \<times> real \<times> real"

definition FLT_EPSILON :: real where
  "FLT_EPSILON = 1 / 2 ^ 23"

definition GLM_YUP :: vec3 where
  "GLM_YUP = (0, 1, 0)"

definition glm_rad :: "real \<Rightarrow> real" where
  "glm_rad deg = deg * pi / 180"

fun glm_vec3_dot :: "vec3 \<Rightarrow> vec3 \<Rightarrow> real" where
  "glm_vec3_dot (a0, a1, a2) (b0, b1, b2) = a0 * b0 + a1 * b1 + a2 * b2"

definition glm_vec3_norm2 :: "vec3 \<Rightarrow> real" where
  "glm_vec3_norm2 v = glm_vec3_dot v v"

definition glm_vec3_norm :: "vec3 \<Rightarrow> real" where
  "glm_vec3_norm v = sqrt (glm_vec3_norm2 v)"

fun glm_vec3_scale :: "vec3 \<Rightarrow> real \<Rightarrow> vec3" where
  "glm_vec3_scale (v0, v1, v2) s = (v0 * s, v1 * s, v2 * s)"

fun glm_vec3_add :: "vec3 \<Rightarrow> vec3 \<Rightarrow> vec3" where
  "glm_vec3_add (a0, a1, a2) (b0, b1, b2) = (a0 + b0, a1 + b1, a2 + b2)"

fun glm_vec3_sub :: "vec3 \<Rightarrow> vec3 \<Rightarrow> vec3" where
  "glm_vec3_sub (a0, a1, a2) (b0, b1, b2) = (a0 - b0, a1 - b1, a2 - b2)"

fun glm_vec3_cross :: "vec3 \<Rightarrow> vec3 \<Rightarrow> vec3" where
  "glm_vec3_cross (a0, a1, a2) (b0, b1, b2) =
     (a1 * b2 - a2 * b1, a2 * b0 - a0 * b2, a0 * b1 - a1 * b0)"

text \<open>
  \<open>glm_vec3_normalize\<close> zeroes a vector whose norm is below \<open>FLT_EPSILON\<close> and
  scales every other vector by the inverse of its norm.
\<close>

definition glm_vec3_normalize :: "vec3 \<Rightarrow> vec3" where
  "glm_vec3_normalize v =
     (let norm = glm_vec3_norm v
      in if norm < FLT_EPSILON then (0, 0, 0) else glm_vec3_scale v (1 / norm))"

definition glm_vec3_crossn :: "vec3 \<Rightarrow> vec3 \<Rightarrow> vec3" where
  "glm_vec3_crossn a b = glm_vec3_normalize (glm_vec3_cross a b)"

subsection \<open>SDL: events, pointer buttons, keyboard\<close>

text \<open>
  \<open>SDL_Event\<close> is a union tagged by its \<open>type\<close> field; the panel reads the tag and
  the relative motion of a \<open>SDL_MouseMotionEvent\<close>. The constants have the values of
  the SDL2 headers. \<open>SDL_GetKeyboardState\<close> gives an array of \<open>Uint8\<close> indexed by
  scancode, here a function of the scancode.
\<close>

record SDL_Event =
  ev_type :: "32 word"
  motion_xrel :: "32 word"
  motion_yrel :: "32 word"

definition SDL_MOUSEMOTION :: "32 word" where
  "SDL_MOUSEMOTION = 0x400"

definition SDL_BUTTON_LMASK :: "32 word" where
  "SDL_BUTTON_LMASK = 1"

definition SDL_SCANCODE_A :: nat where "SDL_SCANCODE_A = 4"
definition SDL_SCANCODE_D :: nat where "SDL_SCANCODE_D = 7"
definition SDL_SCANCODE_S :: nat where "SDL_SCANCODE_S = 22"
definition SDL_SCANCODE_W :: nat where "SDL_SCANCODE_W = 26"

type_synonym keyboard = "nat \<Rightarrow> 8 word"

subsection \<open>OpenGL: the objects the panel creates\<close>

text \<open>
  The part of the GL state the panel's calls touch: the framebuffer and texture names
  handed out so far (names are positive and never reused), the two bindings, the
  level-0 image size and the filters of each texture, and the texture attached as
  colour attachment 0 of each framebuffer. Every call of the source uses the targets
  \<open>GL_FRAMEBUFFER\<close> and \<open>GL_TEXTURE_2D\<close>, level 0 and format \<open>GL_RGB\<close>; the
  functions below are specialised to them. Error states of GL are not represented.
\<close>

datatype gl_filter = GL_LINEAR

datatype gl_tex_pname = GL_TEXTURE_MIN_FILTER | GL_TEXTURE_MAG_FILTER

record gl_state =
  gl_framebuffer_names :: nat
  gl_texture_names :: nat
  gl_framebuffer_binding :: nat
  gl_texture_binding :: nat
  gl_tex_size :: "nat \<Rightarrow> (int \<times> int) option"
  gl_tex_filter :: "nat \<Rightarrow> gl_tex_pname \<Rightarrow> gl_filter option"
  gl_color_attachment0 :: "nat \<Rightarrow> nat option"

definition gl_initial :: gl_state where
  "gl_initial =
     \<lparr>gl_framebuffer_names = 0, gl_texture_names = 0, gl_framebuffer_binding = 0,
      gl_texture_binding = 0, gl_tex_size = (\<lambda>t. None), gl_tex_filter = (\<lambda>t p. None),
      gl_color_attachment0 = (\<lambda>f. None)\<rparr>"

definition glGenFramebuffers :: "gl_state \<Rightarrow> nat \<times> gl_state" where
  "glGenFramebuffers g =
     (Suc (gl_framebuffer_names g), g\<lparr>gl_framebuffer_names := Suc (gl_framebuffer_names g)\<rparr>)"

definition glGenTextures :: "gl_state \<Rightarrow> nat \<times> gl_state" where
  "glGenTextures g =
     (Suc (gl_texture_names g), g\<lparr>gl_texture_names := Suc (gl_texture_names g)\<rparr>)"

definition glBindFramebuffer :: "gl_state \<Rightarrow> nat \<Rightarrow> gl_state" where
  "glBindFramebuffer g fbo = g\<lparr>gl_framebuffer_binding := fbo\<rparr>"

definition glBindTexture :: "gl_state \<Rightarrow> nat \<Rightarrow> gl_state" where
  "glBindTexture g tex = g\<lparr>gl_texture_binding := tex\<rparr>"

definition glTexImage2D :: "gl_state \<Rightarrow> int \<Rightarrow> int \<Rightarrow> gl_state" where
  "glTexImage2D g width height =
     g\<lparr>gl_tex_size := (gl_tex_size g)(gl_texture_binding g \<mapsto> (width, height))\<rparr>"

definition glTexParameteri :: "gl_state \<Rightarrow> gl_tex_pname \<Rightarrow> gl_filter \<Rightarrow> gl_state" where
  "glTexParameteri g pname param =
     g\<lparr>gl_tex_filter := (gl_tex_filter g)
        (gl_texture_binding g := (gl_tex_filter g (gl_texture_binding g))(pname \<mapsto> param))\<rparr>"

definition glFramebufferTexture2D :: "gl_state \<Rightarrow> nat \<Rightarrow> gl_state" where
  "glFramebufferTexture2D g tex =
     g\<lparr>gl_color_attachment0 := (gl_color_attachment0 g)(gl_framebuffer_binding g \<mapsto> tex)\<rparr>"

text \<open>
  The fields of an \<open>ImVec2\<close> are \<open>float\<close>; the size parameters of \<open>glTexImage2D\<close>
  are \<open>GLsizei\<close>. C converts by discarding the fractional part.
\<close>

definition c_int_of_float :: "real \<Rightarrow> int" where
  "c_int_of_float x = (if 0 \<le> x then \<lfloor>x\<rfloor> else \<lceil>x\<rceil>)"

subsection \<open>The renderer and the entity table\<close>

text \<open>
  \<open>renderer_resize\<close>, \<open>renderer_render\<close> and \<open>get_entity\<close> belong to the engine and
  are not part of the panel. The panel's calls to the renderer are kept in order,
  each with the values of its arguments at the call; the entity table is a parameter
  of \<open>scene_render\<close>.
\<close>

datatype renderer_call =
    Renderer_resize real real
  | Renderer_render nat vec3 vec3 int real real int bool

record entity_t =
  ent_name :: string
  ent_id :: int

subsection \<open>ImGui: the calls of one frame\<close>

text \<open>
  The panel's ImGui calls are kept in order. What ImGui answers during a frame is an
  input: whether \<open>igBegin\<close> reports the window visible, whether it clears the
  \<open>p_open\<close> flag (the close button), the window size and the focus.
\<close>

type_synonym ImVec2 = "real \<times> real"
type_synonym ImVec4 = "real \<times> real \<times> real \<times> real"

datatype ImGuiStyleVar = ImGuiStyleVar_WindowPadding

definition ImGuiWindowFlags_NoScrollbar :: "32 word" where
  "ImGuiWindowFlags_NoScrollbar = push_bit 3 1"

definition ImGuiWindowFlags_NoScrollWithMouse :: "32 word" where
  "ImGuiWindowFlags_NoScrollWithMouse = push_bit 4 1"

datatype printf_arg = Arg_string string | Arg_int int

datatype ig_call =
    IgPushStyleVar_Vec2 ImGuiStyleVar ImVec2
  | IgBegin string "32 word"
  | IgImage nat ImVec2 ImVec2 ImVec2 ImVec4 ImVec4
  | IgSetCursorPos ImVec2
  | IgText string "printf_arg list"
  | IgEnd
  | IgPopStyleVar int

record ig_frame =
  ig_begin_visible :: bool
  ig_close_pressed :: bool
  ig_window_size :: ImVec2
  ig_window_focused :: bool

subsection \<open>The panel's state\<close>

text \<open>
  The globals of scene.c, the two globals of the editor it reads (\<open>scene_open\<close>,
  \<open>selected_entity\<close>), and the state of the libraries it drives. \<open>cam_speed\<close> is a
  constant.
\<close>

record scene_state =
  scene_focused :: bool
  scene_size :: ImVec2
  first_frame :: bool
  scene_fbo :: nat
  scene_tex :: nat
  cam_pos :: vec3
  cam_dir :: vec3
  yaw :: real
  pitch :: real
  scene_open :: bool
  selected_entity :: int
  gl :: gl_state
  renderer_calls :: "renderer_call list"
  ig_calls :: "ig_call list"

definition cam_speed :: real where
  "cam_speed = 0.25"

text \<open>
  The state at program start: the initialisers of scene.c (a global without one is
  zero), no GL object, no call made. The two editor globals are defined elsewhere and
  are parameters.
\<close>

definition scene_start :: "bool \<Rightarrow> int \<Rightarrow> scene_state" where
  "scene_start opn sel =
     \<lparr>scene_focused = False, scene_size = (0, 0), first_frame = True,
      scene_fbo = 0, scene_tex = 0,
      cam_pos = (0, 3, 0), cam_dir = (0, 0, 0), yaw = - 90, pitch = 0,
      scene_open = opn, selected_entity = sel,
      gl = gl_initial, renderer_calls = [], ig_calls = []\<rparr>"

subsection \<open>scene_init\<close>

definition scene_init :: "scene_state \<Rightarrow> scene_state" where
  "scene_init s =
     (let (fbo, g1) = glGenFramebuffers (gl s);
          g2 = glBindFramebuffer g1 fbo;
          (tex, g3) = glGenTextures g2;
          g4 = glBindTexture g3 tex;
          g5 = glTexImage2D g4 (c_int_of_float (fst (scene_size s)))
                 (c_int_of_float (snd (scene_size s)));
          g6 = glTexParameteri g5 GL_TEXTURE_MIN_FILTER GL_LINEAR;
          g7 = glTexParameteri g6 GL_TEXTURE_MAG_FILTER GL_LINEAR;
          g8 = glFramebufferTexture2D g7 tex
      in s\<lparr>scene_fbo := fbo, scene_tex := tex, gl := g8\<rparr>)"

subsection \<open>scene_processevent\<close>

text \<open>
  The second argument stands for \<open>*e\<close>, the third for what \<open>SDL_GetMouseState(0, 0)\<close>
  returns during the call. The two clamping statements run on every call.
\<close>

definition scene_processevent :: "scene_state \<Rightarrow> SDL_Event \<Rightarrow> 32 word \<Rightarrow> scene_state" where
  "scene_processevent s e mouse =
     (let s1 = (if ev_type e = SDL_MOUSEMOTION \<and> scene_focused s
                   \<and> mouse AND SDL_BUTTON_LMASK \<noteq> 0
                then s\<lparr>yaw := yaw s + real_of_int (sint (motion_xrel e)) * 0.1,
                       pitch := pitch s - real_of_int (sint (motion_yrel e)) * 0.1\<rparr>
                else s);
          s2 = (if pitch s1 > 89.0 then s1\<lparr>pitch := 89.0\<rparr> else s1);
          s3 = (if pitch s2 < - 89.0 then s2\<lparr>pitch := - 89.0\<rparr> else s2)
      in s3)"

text \<open>A run of events, each with the pointer state at its call.\<close>

fun scene_processevents :: "scene_state \<Rightarrow> (SDL_Event \<times> 32 word) list \<Rightarrow> scene_state" where
  "scene_processevents s [] = s"
| "scene_processevents s ((e, mouse) # es) =
     scene_processevents (scene_processevent s e mouse) es"

subsection \<open>Lines 29 and 30 in IEEE arithmetic\<close>

text \<open>
  \<open>yaw\<close> and \<open>pitch\<close> are \<open>float\<close> and the literal \<open>0.1\<close> is a \<open>double\<close>. C
  converts the \<open>Sint32\<close> delta to \<open>double\<close> (exactly), multiplies it by the double
  nearest to 1/10, converts the angle to \<open>double\<close> (exactly), adds or subtracts, and
  converts the result to \<open>float\<close> for the store. Every operation returns the
  representable number nearest to the exact result, the one with an even last digit in
  a tie.

  \<open>round_even\<close> is the nearest integer with ties to the even one. \<open>ieee_round p\<close>
  rounds to \<open>p\<close> significant binary digits: 24 for \<open>float\<close>, 53 for \<open>double\<close>. The
  exponent is not limited; the values of these two lines stay far inside the range of
  both formats.
\<close>

definition round_even :: "real \<Rightarrow> int" where
  "round_even q =
     (let f = \<lfloor>q\<rfloor>; r = q - of_int f
      in if r < 1 / 2 then f else if 1 / 2 < r then f + 1 else if even f then f else f + 1)"

definition ieee_round :: "nat \<Rightarrow> real \<Rightarrow> real" where
  "ieee_round p x =
     (if x = 0 then 0
      else (let u = 2 powr of_int (\<lfloor>log 2 \<bar>x\<bar>\<rfloor> - int p + 1)
            in of_int (round_even (x / u)) * u))"

definition c_double :: "real \<Rightarrow> real" where
  "c_double x = ieee_round 53 x"

definition c_float :: "real \<Rightarrow> real" where
  "c_float x = ieee_round 24 x"

text \<open>
  \<open>scene_processevent\<close> once more, with the arithmetic of the two assignments as C
  performs it on a state whose angles are \<open>float\<close> values.
\<close>

definition scene_processevent_ieee :: "scene_state \<Rightarrow> SDL_Event \<Rightarrow> 32 word \<Rightarrow> scene_state" where
  "scene_processevent_ieee s e mouse =
     (let s1 = (if ev_type e = SDL_MOUSEMOTION \<and> scene_focused s
                   \<and> mouse AND SDL_BUTTON_LMASK \<noteq> 0
                then s\<lparr>yaw := c_float (c_double (yaw s
                              + c_double (real_of_int (sint (motion_xrel e)) * c_double 0.1))),
                       pitch := c_float (c_double (pitch s
                              - c_double (real_of_int (sint (motion_yrel e)) * c_double 0.1)))\<rparr>
                else s);
          s2 = (if pitch s1 > 89.0 then s1\<lparr>pitch := 89.0\<rparr> else s1);
          s3 = (if pitch s2 < - 89.0 then s2\<lparr>pitch := - 89.0\<rparr> else s2)
      in s3)"

fun scene_processevents_ieee :: "scene_state \<Rightarrow> (SDL_Event \<times> 32 word) list \<Rightarrow> scene_state" where
  "scene_processevents_ieee s [] = s"
| "scene_processevents_ieee s ((e, mouse) # es) =
     scene_processevents_ieee (scene_processevent_ieee s e mouse) es"

subsection \<open>scene_update\<close>

text \<open>Lines 41 to 44: the view direction from yaw and pitch.\<close>

definition scene_update_dir :: "scene_state \<Rightarrow> scene_state" where
  "scene_update_dir s =
     s\<lparr>cam_dir := glm_vec3_normalize
         (cos (glm_rad (yaw s)) * cos (glm_rad (pitch s)),
          sin (glm_rad (pitch s)),
          sin (glm_rad (yaw s)) * cos (glm_rad (pitch s)))\<rparr>"

text \<open>Lines 45 to 66: the four movement keys, tested in the order W, S, A, D.\<close>

definition scene_update_move :: "scene_state \<Rightarrow> keyboard \<Rightarrow> scene_state" where
  "scene_update_move s keys =
     (if scene_focused s then
        (let s1 = (if keys SDL_SCANCODE_W \<noteq> 0
                   then s\<lparr>cam_pos := glm_vec3_add (cam_pos s)
                            (glm_vec3_scale (cam_dir s) cam_speed)\<rparr>
                   else s);
             s2 = (if keys SDL_SCANCODE_S \<noteq> 0
                   then s1\<lparr>cam_pos := glm_vec3_sub (cam_pos s1)
                            (glm_vec3_scale (cam_dir s1) cam_speed)\<rparr>
                   else s1);
             s3 = (if keys SDL_SCANCODE_A \<noteq> 0
                   then s2\<lparr>cam_pos := glm_vec3_sub (cam_pos s2)
                            (glm_vec3_scale (glm_vec3_crossn (cam_dir s2) GLM_YUP) cam_speed)\<rparr>
                   else s2);
             s4 = (if keys SDL_SCANCODE_D \<noteq> 0
                   then s3\<lparr>cam_pos := glm_vec3_add (cam_pos s3)
                            (glm_vec3_scale (glm_vec3_crossn (cam_dir s3) GLM_YUP) cam_speed)\<rparr>
                   else s3)
         in s4)
      else s)"

text \<open>Lines 68 to 73: the offscreen texture, the renderer, the default framebuffer.\<close>

definition scene_update_target :: "scene_state \<Rightarrow> scene_state" where
  "scene_update_target s =
     (let g1 = glBindTexture (gl s) (scene_tex s);
          g2 = glTexImage2D g1 (c_int_of_float (fst (scene_size s)))
                 (c_int_of_float (snd (scene_size s)));
          r1 = renderer_calls s @ [Renderer_resize (fst (scene_size s)) (snd (scene_size s))];
          r2 = r1 @ [Renderer_render (scene_fbo s) (cam_pos s) (cam_dir s) 90
                       (fst (scene_size s)) (snd (scene_size s)) (selected_entity s) True];
          g3 = glBindFramebuffer g2 0
      in s\<lparr>gl := g3, renderer_calls := r2\<rparr>)"

text \<open>The argument \<open>keys\<close> is the array \<open>SDL_GetKeyboardState\<close> returns.\<close>

definition scene_update :: "scene_state \<Rightarrow> keyboard \<Rightarrow> scene_state" where
  "scene_update s keys = scene_update_target (scene_update_move (scene_update_dir s) keys)"

subsection \<open>scene_render\<close>

text \<open>
  \<open>title\<close> is the macro \<open>SCENE_TITLE\<close> of scene.h and \<open>get_entity\<close> the engine's
  lookup; \<open>f\<close> is what ImGui answers in this frame. \<open>igBegin\<close> receives the address of
  \<open>scene_open\<close> and clears it when the window's close button was pressed.
\<close>

definition scene_render ::
  "scene_state \<Rightarrow> string \<Rightarrow> (int \<Rightarrow> entity_t) \<Rightarrow> ig_frame \<Rightarrow> scene_state" where
  "scene_render s title get_entity f =
     (if scene_open s then
        (let s1 = s\<lparr>ig_calls := ig_calls s @ [IgPushStyleVar_Vec2 ImGuiStyleVar_WindowPadding (0, 0)]\<rparr>;
             s2 = s1\<lparr>ig_calls := ig_calls s1 @
                      [IgBegin title (ImGuiWindowFlags_NoScrollbar OR ImGuiWindowFlags_NoScrollWithMouse)],
                    scene_open := (scene_open s1 \<and> \<not> ig_close_pressed f)\<rparr>;
             s3 = (if ig_begin_visible f then
                     (let a = s2\<lparr>scene_size := ig_window_size f\<rparr>;
                          b = a\<lparr>scene_focused := ig_window_focused f\<rparr>;
                          c = b\<lparr>ig_calls := ig_calls b @
                                 [IgImage (scene_tex b) (scene_size b) (0, 1) (1, 0)
                                    (1, 1, 1, 1) (0, 0, 0, 0)]\<rparr>;
                          d = c\<lparr>ig_calls := ig_calls c @ [IgSetCursorPos (16, 32)]\<rparr>
                      in if selected_entity d \<ge> 0 then
                           (let e = get_entity (selected_entity d)
                            in d\<lparr>ig_calls := ig_calls d @
                                 [IgText ''%s (%i)'' [Arg_string (ent_name e), Arg_int (ent_id e)]]\<rparr>)
                         else d\<lparr>ig_calls := ig_calls d @ [IgText ''No entity selected.'' []]\<rparr>)
                   else s2);
             s4 = s3\<lparr>ig_calls := ig_calls s3 @ [IgEnd]\<rparr>
         in s4\<lparr>ig_calls := ig_calls s4 @ [IgPopStyleVar 1]\<rparr>)
      else s)"

text \<open>The overlay texts among the ImGui calls.\<close>

fun is_IgText :: "ig_call \<Rightarrow> bool" where
  "is_IgText (IgText fmt args) = True"
| "is_IgText c = False"

section \<open>Properties\<close>

subsection \<open>Pitch stays clamped\<close>

lemma pitch_processevent_range:
  "- 89 \<le> pitch (scene_processevent s e mouse) \<and> pitch (scene_processevent s e mouse) \<le> 89"
  by (simp add: scene_processevent_def Let_def)

lemma pitch_processevents_range:
  "- 89 \<le> pitch s \<Longrightarrow> pitch s \<le> 89 \<Longrightarrow>
   - 89 \<le> pitch (scene_processevents s es) \<and> pitch (scene_processevents s es) \<le> 89"
proof (induction es arbitrary: s)
  case Nil
  then show ?case by simp
next
  case (Cons x es)
  obtain e mouse where x: "x = (e, mouse)" by (cases x)
  show ?case
    unfolding x scene_processevents.simps
    by (rule Cons.IH) (simp_all add: pitch_processevent_range)
qed

text \<open>
  C1. After every call of \<open>scene_processevent\<close>, whatever the event, the pointer state
  and the state before, the pitch lies in the closed range from -89 to 89. Hence it
  lies there after every further run of events, and after every run of events from the
  program's start.
\<close>

theorem C1_pitch_in_range:
  "(- 89 \<le> pitch (scene_processevent s e mouse) \<and> pitch (scene_processevent s e mouse) \<le> 89) \<and>
   (- 89 \<le> pitch (scene_processevents (scene_processevent s e mouse) es) \<and>
    pitch (scene_processevents (scene_processevent s e mouse) es) \<le> 89) \<and>
   (- 89 \<le> pitch (scene_processevents (scene_start opn sel) es) \<and>
    pitch (scene_processevents (scene_start opn sel) es) \<le> 89)"
proof -
  have one: "- 89 \<le> pitch (scene_processevent s e mouse) \<and> pitch (scene_processevent s e mouse) \<le> 89"
    by (rule pitch_processevent_range)
  have run: "- 89 \<le> pitch (scene_processevents (scene_processevent s e mouse) es) \<and>
    pitch (scene_processevents (scene_processevent s e mouse) es) \<le> 89"
    using one by (intro pitch_processevents_range) simp_all
  have start: "- 89 \<le> pitch (scene_processevents (scene_start opn sel) es) \<and>
    pitch (scene_processevents (scene_start opn sel) es) \<le> 89"
    by (intro pitch_processevents_range) (simp_all add: scene_start_def)
  from one run start show ?thesis by blast
qed

subsection \<open>The view direction\<close>

lemma sphere_sum:
  fixes x y z w :: real
  shows "x * y * (x * y) + w * w + z * y * (z * y) = y * y * (x * x + z * z) + w * w"
  by (simp add: algebra_simps)

lemma unit_dir_norm2:
  "glm_vec3_norm2 (cos a * cos b, sin b, sin a * cos b) = 1"
proof -
  have ca: "cos a * cos a + sin a * sin a = 1"
    using sin_cos_squared_add [of a] by (simp add: power2_eq_square add.commute)
  have cb: "cos b * cos b + sin b * sin b = 1"
    using sin_cos_squared_add [of b] by (simp add: power2_eq_square add.commute)
  have "cos a * cos b * (cos a * cos b) + sin b * sin b + sin a * cos b * (sin a * cos b)
      = cos b * cos b * (cos a * cos a + sin a * sin a) + sin b * sin b"
    by (rule sphere_sum)
  also have "\<dots> = 1"
    unfolding ca using cb by simp
  finally show ?thesis by (simp add: glm_vec3_norm2_def)
qed

lemma normalize_unit:
  "glm_vec3_norm v = 1 \<Longrightarrow> glm_vec3_normalize v = v"
  by (cases v) (simp add: glm_vec3_normalize_def FLT_EPSILON_def Let_def)

lemma cam_dir_update_dir:
  "cam_dir (scene_update_dir s) =
     (cos (glm_rad (yaw s)) * cos (glm_rad (pitch s)), sin (glm_rad (pitch s)),
      sin (glm_rad (yaw s)) * cos (glm_rad (pitch s)))"
  by (simp add: scene_update_dir_def normalize_unit glm_vec3_norm_def unit_dir_norm2)

lemma cam_dir_move: "cam_dir (scene_update_move s keys) = cam_dir s"
  by (simp add: scene_update_move_def Let_def)

lemma cam_dir_target: "cam_dir (scene_update_target s) = cam_dir s"
  by (simp add: scene_update_target_def Let_def)

lemma cam_dir_update:
  "cam_dir (scene_update s keys) =
     (cos (yaw s * pi / 180) * cos (pitch s * pi / 180), sin (pitch s * pi / 180),
      sin (yaw s * pi / 180) * cos (pitch s * pi / 180))"
  by (simp add: scene_update_def cam_dir_target cam_dir_move cam_dir_update_dir glm_rad_def)

text \<open>
  C2. After every call of \<open>scene_update\<close> the camera direction is the point of the
  unit sphere with the angles yaw and pitch, taken in degrees and converted to radians:
  (cos yaw * cos pitch, sin pitch, sin yaw * cos pitch); its length is 1.
\<close>

theorem C2_direction_spherical_unit:
  "cam_dir (scene_update s keys) =
     (cos (yaw s * pi / 180) * cos (pitch s * pi / 180), sin (pitch s * pi / 180),
      sin (yaw s * pi / 180) * cos (pitch s * pi / 180)) \<and>
   glm_vec3_norm (cam_dir (scene_update s keys)) = 1"
proof -
  have "glm_vec3_norm (cam_dir (scene_update s keys)) = 1"
    unfolding cam_dir_update by (simp add: glm_vec3_norm_def unit_dir_norm2)
  with cam_dir_update show ?thesis by simp
qed

subsection \<open>Camera movement\<close>

lemma cam_pos_update_dir: "cam_pos (scene_update_dir s) = cam_pos s"
  by (simp add: scene_update_dir_def)

lemma focused_update_dir: "scene_focused (scene_update_dir s) = scene_focused s"
  by (simp add: scene_update_dir_def)

lemma cam_pos_target: "cam_pos (scene_update_target s) = cam_pos s"
  by (simp add: scene_update_target_def Let_def)

lemma cam_pos_move_unfocused:
  "\<not> scene_focused s \<Longrightarrow> cam_pos (scene_update_move s keys) = cam_pos s"
  by (simp add: scene_update_move_def)

text \<open>
  C3. Whatever the keyboard state, \<open>scene_update\<close> on a panel that is not focused
  leaves the camera position unchanged.
\<close>

theorem C3_unfocused_keeps_position:
  "\<not> scene_focused s \<Longrightarrow> cam_pos (scene_update s keys) = cam_pos s"
  by (simp add: scene_update_def cam_pos_target cam_pos_move_unfocused focused_update_dir
      cam_pos_update_dir)

theorem C3_unfocused_keeps_position_witness:
  "\<not> scene_focused (scene_start True 0) \<and>
   cam_pos (scene_update (scene_start True 0) (\<lambda>k. 1)) = (0, 3, 0)"
proof -
  have h: "\<not> scene_focused (scene_start True 0)"
    by (simp add: scene_start_def)
  have "cam_pos (scene_start True 0) = (0, 3, 0)"
    by (simp add: scene_start_def)
  with h C3_unfocused_keeps_position [OF h, of "\<lambda>k. 1"] show ?thesis by simp
qed

lemma cam_pos_move_focused:
  "scene_focused s \<Longrightarrow>
   cam_pos (scene_update_move s keys) =
     glm_vec3_add (cam_pos s)
       (glm_vec3_add
          (glm_vec3_scale (cam_dir s)
             (cam_speed * ((if keys SDL_SCANCODE_W \<noteq> 0 then 1 else 0)
                           - (if keys SDL_SCANCODE_S \<noteq> 0 then 1 else 0))))
          (glm_vec3_scale (glm_vec3_crossn (cam_dir s) GLM_YUP)
             (cam_speed * ((if keys SDL_SCANCODE_D \<noteq> 0 then 1 else 0)
                           - (if keys SDL_SCANCODE_A \<noteq> 0 then 1 else 0)))))"
proof -
  obtain px py pz where p: "cam_pos s = (px, py, pz)" by (cases "cam_pos s")
  obtain dx dy dz where d: "cam_dir s = (dx, dy, dz)" by (cases "cam_dir s")
  obtain nx ny nz where n: "glm_vec3_crossn (dx, dy, dz) GLM_YUP = (nx, ny, nz)"
    by (cases "glm_vec3_crossn (dx, dy, dz) GLM_YUP")
  assume "scene_focused s"
  then show ?thesis
    by (simp add: scene_update_move_def Let_def p d n algebra_simps)
qed

lemma norm_scale_unit:
  "glm_vec3_norm v = 1 \<Longrightarrow> 0 \<le> c \<Longrightarrow> glm_vec3_norm (glm_vec3_scale v c) = c"
proof -
  obtain x y z where v: "v = (x, y, z)" by (cases v)
  assume u: "glm_vec3_norm v = 1" and c: "0 \<le> c"
  have "x * c * (x * c) + y * c * (y * c) + z * c * (z * c) = c\<^sup>2 * (x * x + y * y + z * z)"
    by (simp add: power2_eq_square algebra_simps)
  then have "glm_vec3_norm (glm_vec3_scale v c) = sqrt (c\<^sup>2 * (x * x + y * y + z * z))"
    by (simp add: v glm_vec3_norm_def glm_vec3_norm2_def)
  also have "\<dots> = \<bar>c\<bar> * sqrt (x * x + y * y + z * z)"
    by (simp add: real_sqrt_mult)
  also have "\<dots> = c"
    using u c by (simp add: v glm_vec3_norm_def glm_vec3_norm2_def)
  finally show ?thesis .
qed

lemma crossn_up_y: "fst (snd (glm_vec3_crossn d GLM_YUP)) = 0"
  by (cases d)
    (simp add: glm_vec3_crossn_def GLM_YUP_def glm_vec3_normalize_def Let_def)

lemma cam_pos_update_focused:
  "scene_focused s \<Longrightarrow>
   cam_pos (scene_update s keys) =
     glm_vec3_add (cam_pos s)
       (glm_vec3_add
          (glm_vec3_scale (cam_dir (scene_update s keys))
             (cam_speed * ((if keys SDL_SCANCODE_W \<noteq> 0 then 1 else 0)
                           - (if keys SDL_SCANCODE_S \<noteq> 0 then 1 else 0))))
          (glm_vec3_scale (glm_vec3_crossn (cam_dir (scene_update s keys)) GLM_YUP)
             (cam_speed * ((if keys SDL_SCANCODE_D \<noteq> 0 then 1 else 0)
                           - (if keys SDL_SCANCODE_A \<noteq> 0 then 1 else 0)))))"
  by (simp only: scene_update_def cam_pos_target cam_dir_target cam_dir_move
      cam_pos_move_focused focused_update_dir cam_pos_update_dir)

text \<open>The strafe axis is a unit vector while the pitch is clamped.\<close>

lemma sin_lower_bound:
  fixes x :: real
  assumes "0 < x"
  shows "x - x ^ 3 / 2 \<le> sin x"
proof -
  obtain t where t: "0 < t" "t < x"
    and e: "sin x = (\<Sum>m<2. sin_coeff m * x ^ m) + (sin (t + 1/2 * real 2 * pi) / fact 2) * x ^ 2"
    using Maclaurin_sin_expansion3 [of 2 x] assms by auto
  have s: "(\<Sum>m<2. sin_coeff m * x ^ m) = x"
    by (simp add: lessThan_Suc numeral_2_eq_2 sin_coeff_Suc cos_coeff_def)
  have "sin x = x - sin t / 2 * x ^ 2"
    using e by (simp add: s)
  moreover have "sin t \<le> x"
    using sin_x_le_x [of t] t by simp
  then have "sin t / 2 * x ^ 2 \<le> x / 2 * x ^ 2"
    by (intro mult_right_mono divide_right_mono) simp_all
  moreover have "x / 2 * x ^ 2 = x ^ 3 / 2"
    by (simp add: power3_eq_cube power2_eq_square)
  ultimately show ?thesis by simp
qed

lemma sin_one_degree: "1 / 100 \<le> sin (pi / 180)"
proof -
  have p2: "2 \<le> pi" by (rule pi_ge_two)
  have p4: "pi < 4" by (rule pi_less_4)
  have lo: "1 / 90 \<le> pi / 180" using p2 by simp
  have "pi / 180 \<le> 1 / 45" using p4 by simp
  moreover have "0 \<le> pi / 180" by simp
  ultimately have "(pi / 180) ^ 3 \<le> (1 / 45) ^ 3"
    by (rule power_mono)
  then have hi: "(pi / 180) ^ 3 / 2 \<le> (1 / 45) ^ 3 / 2" by simp
  have "1 / 100 \<le> (1 / 90 :: real) - (1 / 45) ^ 3 / 2" by (simp add: power3_eq_cube)
  also have "\<dots> \<le> pi / 180 - (pi / 180) ^ 3 / 2" using lo hi by linarith
  also have "\<dots> \<le> sin (pi / 180)" by (rule sin_lower_bound) simp
  finally show ?thesis .
qed

lemma cos_clamped_pitch:
  assumes "- 89 \<le> p" "p \<le> 89"
  shows "1 / 100 \<le> cos (p * pi / 180)"
proof -
  have a: "0 \<le> \<bar>p\<bar> * pi / 180" by simp
  have "\<bar>p\<bar> \<le> 89" using assms by simp
  then have b: "\<bar>p\<bar> * pi / 180 \<le> 89 * pi / 180"
    by (simp add: mult_right_mono)
  have c: "89 * pi / 180 \<le> pi" by simp
  have "cos (89 * pi / 180) \<le> cos (\<bar>p\<bar> * pi / 180)"
    using cos_monotone_0_pi_le [OF a b c] .
  moreover have "cos (\<bar>p\<bar> * pi / 180) = cos (p * pi / 180)"
    by (cases "0 \<le> p") (simp_all add: abs_if)
  moreover have "cos (89 * pi / 180) = sin (pi / 180)"
  proof -
    have "pi / 2 - 89 * pi / 180 = pi / 180" by simp
    then show ?thesis using cos_sin_eq [of "89 * pi / 180 :: real"] by simp
  qed
  ultimately show ?thesis using sin_one_degree by linarith
qed

lemma circle_sum:
  fixes x y z :: real
  shows "x * z * (x * z) + y * z * (y * z) = z * z * (x * x + y * y)"
  by (simp add: algebra_simps)

lemma strafe_axis:
  assumes "- 89 \<le> p" "p \<le> 89"
  shows "glm_vec3_crossn (cos a * cos (p * pi / 180), sin (p * pi / 180),
           sin a * cos (p * pi / 180)) GLM_YUP = (- sin a, 0, cos a)"
proof -
  let ?c = "cos (p * pi / 180)"
  have c: "1 / 100 \<le> ?c" using assms by (rule cos_clamped_pitch)
  have x: "glm_vec3_cross (cos a * ?c, sin (p * pi / 180), sin a * ?c) GLM_YUP
      = (- (sin a * ?c), 0, cos a * ?c)"
    by (simp add: GLM_YUP_def)
  have sc: "sin a * sin a + cos a * cos a = 1"
    using sin_cos_squared_add [of a] by (simp add: power2_eq_square)
  have "sin a * ?c * (sin a * ?c) + cos a * ?c * (cos a * ?c)
      = ?c * ?c * (sin a * sin a + cos a * cos a)"
    by (rule circle_sum)
  also have "\<dots> = ?c * ?c"
    unfolding sc by simp
  finally have "glm_vec3_norm2 (- (sin a * ?c), 0, cos a * ?c) = ?c * ?c"
    by (simp add: glm_vec3_norm2_def)
  then have n: "glm_vec3_norm (- (sin a * ?c), 0, cos a * ?c) = ?c"
    using c by (simp add: glm_vec3_norm_def)
  have e: "\<not> ?c < FLT_EPSILON"
    using c by (simp add: FLT_EPSILON_def)
  have nz: "?c \<noteq> 0" using c by auto
  show ?thesis
    unfolding glm_vec3_crossn_def x glm_vec3_normalize_def Let_def n
    using e nz by simp
qed

lemma strafe_axis_unit: "glm_vec3_norm (- sin a, 0, cos a) = 1"
  using sin_cos_squared_add [of a]
  by (simp add: glm_vec3_norm_def glm_vec3_norm2_def power2_eq_square)

text \<open>
  C5. On a focused panel \<open>scene_update\<close> moves the camera by \<open>cam_speed\<close> = 0.25
  along the held axes: W adds \<open>cam_speed\<close> times the view direction, S subtracts it,
  D adds and A subtracts \<open>cam_speed\<close> times the normalised cross product of the view
  direction with the world's up axis. The view direction is the one this update has
  computed. A step along it has length 0.25, and so has a step along the strafe axis
  when the pitch lies between -89 and 89, where \<open>scene_processevent\<close> keeps it.
\<close>

theorem C5_focused_movement:
  "scene_focused s \<Longrightarrow>
   cam_speed = 0.25 \<and>
   cam_pos (scene_update s keys) =
     glm_vec3_add (cam_pos s)
       (glm_vec3_add
          (glm_vec3_scale (cam_dir (scene_update s keys))
             (cam_speed * ((if keys SDL_SCANCODE_W \<noteq> 0 then 1 else 0)
                           - (if keys SDL_SCANCODE_S \<noteq> 0 then 1 else 0))))
          (glm_vec3_scale (glm_vec3_crossn (cam_dir (scene_update s keys)) GLM_YUP)
             (cam_speed * ((if keys SDL_SCANCODE_D \<noteq> 0 then 1 else 0)
                           - (if keys SDL_SCANCODE_A \<noteq> 0 then 1 else 0))))) \<and>
   glm_vec3_norm (glm_vec3_scale (cam_dir (scene_update s keys)) cam_speed) = 0.25 \<and>
   (- 89 \<le> pitch s \<and> pitch s \<le> 89 \<longrightarrow>
      glm_vec3_norm (glm_vec3_scale (glm_vec3_crossn (cam_dir (scene_update s keys)) GLM_YUP)
        cam_speed) = 0.25)"
proof -
  assume f: "scene_focused s"
  have unit: "glm_vec3_norm (cam_dir (scene_update s keys)) = 1"
    unfolding cam_dir_update by (simp add: glm_vec3_norm_def unit_dir_norm2)
  have speed: "cam_speed = 0.25"
    by (simp add: cam_speed_def)
  have step: "glm_vec3_norm (glm_vec3_scale (cam_dir (scene_update s keys)) cam_speed) = 0.25"
    using norm_scale_unit [OF unit, of cam_speed] by (simp add: cam_speed_def)
  have strafe: "glm_vec3_norm (glm_vec3_scale
      (glm_vec3_crossn (cam_dir (scene_update s keys)) GLM_YUP) cam_speed) = 0.25"
    if r: "- 89 \<le> pitch s \<and> pitch s \<le> 89"
  proof -
    have "glm_vec3_norm (glm_vec3_crossn (cam_dir (scene_update s keys)) GLM_YUP) = 1"
      unfolding cam_dir_update using r by (simp add: strafe_axis strafe_axis_unit)
    from norm_scale_unit [OF this, of cam_speed] show ?thesis
      by (simp add: cam_speed_def)
  qed
  from speed cam_pos_update_focused [OF f] step strafe show ?thesis by blast
qed

lemma scale_zero: "glm_vec3_scale v 0 = (0, 0, 0)"
  by (cases v) simp

lemma start_dir:
  "cam_dir (scene_update ((scene_start opn sel)\<lparr>scene_focused := True\<rparr>) keys) = (0, 0, - 1)"
  by (simp add: cam_dir_update scene_start_def)

lemma crossn_start: "glm_vec3_crossn (0, 0, - 1) GLM_YUP = (1, 0, 0)"
  by (simp add: glm_vec3_crossn_def GLM_YUP_def glm_vec3_normalize_def glm_vec3_norm_def
      glm_vec3_norm2_def FLT_EPSILON_def Let_def)

theorem C5_focused_movement_witness:
  "scene_focused ((scene_start True 0)\<lparr>scene_focused := True\<rparr>) \<and>
   - 89 \<le> pitch ((scene_start True 0)\<lparr>scene_focused := True\<rparr>) \<and>
   pitch ((scene_start True 0)\<lparr>scene_focused := True\<rparr>) \<le> 89 \<and>
   cam_pos (scene_update ((scene_start True 0)\<lparr>scene_focused := True\<rparr>)
      (\<lambda>k. if k = SDL_SCANCODE_W \<or> k = SDL_SCANCODE_D then 1 else 0)) = (0.25, 3, - 0.25) \<and>
   glm_vec3_norm (glm_vec3_scale (glm_vec3_crossn
      (cam_dir (scene_update ((scene_start True 0)\<lparr>scene_focused := True\<rparr>)
         (\<lambda>k. if k = SDL_SCANCODE_W \<or> k = SDL_SCANCODE_D then 1 else 0))) GLM_YUP)
      cam_speed) = 0.25"
proof -
  have h: "scene_focused ((scene_start True 0)\<lparr>scene_focused := True\<rparr>)"
    by simp
  have r: "- 89 \<le> pitch ((scene_start True 0)\<lparr>scene_focused := True\<rparr>) \<and>
      pitch ((scene_start True 0)\<lparr>scene_focused := True\<rparr>) \<le> 89"
    by (simp add: scene_start_def)
  have p: "cam_pos ((scene_start True 0)\<lparr>scene_focused := True\<rparr>) = (0, 3, 0)"
    by (simp add: scene_start_def)
  note t = C5_focused_movement [OF h,
      of "\<lambda>k. if k = SDL_SCANCODE_W \<or> k = SDL_SCANCODE_D then 1 else 0"]
  from t have a: "cam_pos (scene_update ((scene_start True 0)\<lparr>scene_focused := True\<rparr>)
      (\<lambda>k. if k = SDL_SCANCODE_W \<or> k = SDL_SCANCODE_D then 1 else 0)) = (0.25, 3, - 0.25)"
    by (simp add: start_dir crossn_start p cam_speed_def SDL_SCANCODE_W_def SDL_SCANCODE_S_def
        SDL_SCANCODE_A_def SDL_SCANCODE_D_def)
  from t r have b: "glm_vec3_norm (glm_vec3_scale (glm_vec3_crossn
      (cam_dir (scene_update ((scene_start True 0)\<lparr>scene_focused := True\<rparr>)
         (\<lambda>k. if k = SDL_SCANCODE_W \<or> k = SDL_SCANCODE_D then 1 else 0))) GLM_YUP)
      cam_speed) = 0.25"
    by blast
  from h r a b show ?thesis by blast
qed

text \<open>
  C9. On a focused panel with neither W nor S held, \<open>scene_update\<close> leaves the
  height (the y component) of the camera position unchanged, whatever A and D are: the
  strafe axis, the normalised cross product of the view direction with the up axis, has
  y component 0.
\<close>

theorem C9_strafe_keeps_height:
  "scene_focused s \<Longrightarrow> keys SDL_SCANCODE_W = 0 \<Longrightarrow> keys SDL_SCANCODE_S = 0 \<Longrightarrow>
   fst (snd (cam_pos (scene_update s keys))) = fst (snd (cam_pos s)) \<and>
   fst (snd (glm_vec3_crossn (cam_dir (scene_update s keys)) GLM_YUP)) = 0"
proof -
  assume f: "scene_focused s" and w: "keys SDL_SCANCODE_W = 0" and b: "keys SDL_SCANCODE_S = 0"
  obtain px py pz where p: "cam_pos s = (px, py, pz)" by (cases "cam_pos s")
  obtain nx ny nz where n:
    "glm_vec3_crossn (cam_dir (scene_update s keys)) GLM_YUP = (nx, ny, nz)"
    by (cases "glm_vec3_crossn (cam_dir (scene_update s keys)) GLM_YUP")
  have y: "ny = 0"
    using crossn_up_y [of "cam_dir (scene_update s keys)"] by (simp add: n)
  have "fst (snd (cam_pos (scene_update s keys))) = py"
    by (simp add: cam_pos_update_focused [OF f] w b p n y scale_zero)
  then show ?thesis
    by (simp add: p crossn_up_y)
qed

theorem C9_strafe_keeps_height_witness:
  "scene_focused ((scene_start True 0)\<lparr>scene_focused := True\<rparr>) \<and>
   (\<lambda>k. if k = SDL_SCANCODE_A then (1 :: 8 word) else 0) SDL_SCANCODE_W = 0 \<and>
   (\<lambda>k. if k = SDL_SCANCODE_A then (1 :: 8 word) else 0) SDL_SCANCODE_S = 0 \<and>
   cam_pos (scene_update ((scene_start True 0)\<lparr>scene_focused := True\<rparr>)
      (\<lambda>k. if k = SDL_SCANCODE_A then 1 else 0)) = (- 0.25, 3, 0) \<and>
   fst (snd (cam_pos (scene_update ((scene_start True 0)\<lparr>scene_focused := True\<rparr>)
      (\<lambda>k. if k = SDL_SCANCODE_A then 1 else 0)))) = 3"
proof -
  have h: "scene_focused ((scene_start True 0)\<lparr>scene_focused := True\<rparr>)"
    by simp
  have w: "(\<lambda>k. if k = SDL_SCANCODE_A then (1 :: 8 word) else 0) SDL_SCANCODE_W = 0"
    by (simp add: SDL_SCANCODE_W_def SDL_SCANCODE_A_def)
  have b: "(\<lambda>k. if k = SDL_SCANCODE_A then (1 :: 8 word) else 0) SDL_SCANCODE_S = 0"
    by (simp add: SDL_SCANCODE_S_def SDL_SCANCODE_A_def)
  have p: "cam_pos ((scene_start True 0)\<lparr>scene_focused := True\<rparr>) = (0, 3, 0)"
    by (simp add: scene_start_def)
  have q: "cam_pos (scene_update ((scene_start True 0)\<lparr>scene_focused := True\<rparr>)
      (\<lambda>k. if k = SDL_SCANCODE_A then 1 else 0)) = (- 0.25, 3, 0)"
    by (simp add: cam_pos_update_focused [OF h] start_dir crossn_start p scale_zero cam_speed_def
        SDL_SCANCODE_W_def SDL_SCANCODE_S_def SDL_SCANCODE_A_def SDL_SCANCODE_D_def)
  from C9_strafe_keeps_height [OF h w b] h w b p q show ?thesis
    by simp
qed

subsection \<open>Pointer motion\<close>

lemma processevent_cases:
  "scene_processevent s e mouse =
     (if ev_type e = SDL_MOUSEMOTION \<and> scene_focused s \<and> mouse AND SDL_BUTTON_LMASK \<noteq> 0
      then s\<lparr>yaw := yaw s + real_of_int (sint (motion_xrel e)) * 0.1,
             pitch := max (- 89) (min 89 (pitch s - real_of_int (sint (motion_yrel e)) * 0.1))\<rparr>
      else s\<lparr>pitch := max (- 89) (min 89 (pitch s))\<rparr>)"
proof -
  have gen: "\<And>c y p.
    (let s1 = (if c then s\<lparr>yaw := y, pitch := p\<rparr> else s);
         s2 = (if pitch s1 > 89.0 then s1\<lparr>pitch := 89.0\<rparr> else s1);
         s3 = (if pitch s2 < - 89.0 then s2\<lparr>pitch := - 89.0\<rparr> else s2)
     in s3) =
    (if c then s\<lparr>yaw := y, pitch := max (- 89) (min 89 p)\<rparr>
     else s\<lparr>pitch := max (- 89) (min 89 (pitch s))\<rparr>)"
  proof -
    fix c :: bool and y p :: real
    show "(let s1 = (if c then s\<lparr>yaw := y, pitch := p\<rparr> else s);
         s2 = (if pitch s1 > 89.0 then s1\<lparr>pitch := 89.0\<rparr> else s1);
         s3 = (if pitch s2 < - 89.0 then s2\<lparr>pitch := - 89.0\<rparr> else s2)
     in s3) =
    (if c then s\<lparr>yaw := y, pitch := max (- 89) (min 89 p)\<rparr>
     else s\<lparr>pitch := max (- 89) (min 89 (pitch s))\<rparr>)"
      by (cases c) (simp_all add: Let_def max_def min_def)
  qed
  show ?thesis
    unfolding scene_processevent_def by (rule gen)
qed

lemma yaw_processevent:
  "yaw (scene_processevent s e mouse) =
     (if ev_type e = SDL_MOUSEMOTION \<and> scene_focused s \<and> mouse AND SDL_BUTTON_LMASK \<noteq> 0
      then yaw s + 0.1 * real_of_int (sint (motion_xrel e)) else yaw s)"
proof (cases "ev_type e = SDL_MOUSEMOTION \<and> scene_focused s \<and> mouse AND SDL_BUTTON_LMASK \<noteq> 0")
  case True
  show ?thesis
    unfolding processevent_cases by (simp only: True if_True) simp
next
  case False
  show ?thesis
    unfolding processevent_cases by (simp only: False if_False) simp
qed

lemma pitch_processevent:
  "pitch (scene_processevent s e mouse) =
     max (- 89) (min 89
       (if ev_type e = SDL_MOUSEMOTION \<and> scene_focused s \<and> mouse AND SDL_BUTTON_LMASK \<noteq> 0
        then pitch s - 0.1 * real_of_int (sint (motion_yrel e)) else pitch s))"
proof (cases "ev_type e = SDL_MOUSEMOTION \<and> scene_focused s \<and> mouse AND SDL_BUTTON_LMASK \<noteq> 0")
  case True
  show ?thesis
    unfolding processevent_cases by (simp only: True if_True) simp
next
  case False
  show ?thesis
    unfolding processevent_cases by (simp only: False if_False) simp
qed

lemma processevent_idle:
  assumes "\<not> (ev_type e = SDL_MOUSEMOTION \<and> scene_focused s \<and> mouse AND SDL_BUTTON_LMASK \<noteq> 0)"
    and "- 89 \<le> pitch s" and "pitch s \<le> 89"
  shows "scene_processevent s e mouse = s"
proof -
  have "max (- 89) (min 89 (pitch s)) = pitch s"
    using assms(2,3) by (simp add: max_def min_def)
  then show ?thesis
    unfolding processevent_cases by (simp only: assms(1) if_False) simp
qed

text \<open>
  C4, as the code has it. For a mouse-motion event on a focused panel with the left
  button held, yaw grows by 0.1 times the horizontal delta and pitch falls by 0.1 times
  the vertical delta; for every other call yaw keeps its value. In both cases the pitch
  is then clamped to the range from -89 to 89, so a call that is not such a motion
  changes nothing when the pitch is in that range already.
\<close>

theorem C4_pointer_motion:
  "yaw (scene_processevent s e mouse) =
     (if ev_type e = SDL_MOUSEMOTION \<and> scene_focused s \<and> mouse AND SDL_BUTTON_LMASK \<noteq> 0
      then yaw s + 0.1 * real_of_int (sint (motion_xrel e)) else yaw s) \<and>
   pitch (scene_processevent s e mouse) =
     max (- 89) (min 89
       (if ev_type e = SDL_MOUSEMOTION \<and> scene_focused s \<and> mouse AND SDL_BUTTON_LMASK \<noteq> 0
        then pitch s - 0.1 * real_of_int (sint (motion_yrel e)) else pitch s)) \<and>
   (\<not> (ev_type e = SDL_MOUSEMOTION \<and> scene_focused s \<and> mouse AND SDL_BUTTON_LMASK \<noteq> 0)
      \<and> - 89 \<le> pitch s \<and> pitch s \<le> 89
    \<longrightarrow> scene_processevent s e mouse = s)"
proof (intro conjI impI)
  show "yaw (scene_processevent s e mouse) =
     (if ev_type e = SDL_MOUSEMOTION \<and> scene_focused s \<and> mouse AND SDL_BUTTON_LMASK \<noteq> 0
      then yaw s + 0.1 * real_of_int (sint (motion_xrel e)) else yaw s)"
    by (rule yaw_processevent)
  show "pitch (scene_processevent s e mouse) =
     max (- 89) (min 89
       (if ev_type e = SDL_MOUSEMOTION \<and> scene_focused s \<and> mouse AND SDL_BUTTON_LMASK \<noteq> 0
        then pitch s - 0.1 * real_of_int (sint (motion_yrel e)) else pitch s))"
    by (rule pitch_processevent)
  assume a: "\<not> (ev_type e = SDL_MOUSEMOTION \<and> scene_focused s \<and> mouse AND SDL_BUTTON_LMASK \<noteq> 0)
      \<and> - 89 \<le> pitch s \<and> pitch s \<le> 89"
  show "scene_processevent s e mouse = s"
    by (rule processevent_idle) (use a in blast)+
qed

theorem C4_pointer_motion_witness:
  "\<not> (ev_type \<lparr>ev_type = 0x300, motion_xrel = 5, motion_yrel = 7\<rparr> = SDL_MOUSEMOTION
       \<and> scene_focused ((scene_start True 0)\<lparr>scene_focused := True\<rparr>)
       \<and> (1 :: 32 word) AND SDL_BUTTON_LMASK \<noteq> 0) \<and>
   - 89 \<le> pitch ((scene_start True 0)\<lparr>scene_focused := True\<rparr>) \<and>
   pitch ((scene_start True 0)\<lparr>scene_focused := True\<rparr>) \<le> 89 \<and>
   scene_processevent ((scene_start True 0)\<lparr>scene_focused := True\<rparr>)
     \<lparr>ev_type = 0x300, motion_xrel = 5, motion_yrel = 7\<rparr> 1
   = (scene_start True 0)\<lparr>scene_focused := True\<rparr>"
proof -
  have h: "\<not> (ev_type \<lparr>ev_type = 0x300, motion_xrel = 5, motion_yrel = 7\<rparr> = SDL_MOUSEMOTION
       \<and> scene_focused ((scene_start True 0)\<lparr>scene_focused := True\<rparr>)
       \<and> (1 :: 32 word) AND SDL_BUTTON_LMASK \<noteq> 0)"
    by (simp add: SDL_MOUSEMOTION_def)
  have p: "- 89 \<le> pitch ((scene_start True 0)\<lparr>scene_focused := True\<rparr>) \<and>
     pitch ((scene_start True 0)\<lparr>scene_focused := True\<rparr>) \<le> 89"
    by (simp add: scene_start_def)
  from h p C4_pointer_motion [of "(scene_start True 0)\<lparr>scene_focused := True\<rparr>"
      "\<lparr>ev_type = 0x300, motion_xrel = 5, motion_yrel = 7\<rparr>" 1]
  show ?thesis by blast
qed

text \<open>
  C4 as stated has the pitch grow by 0.1 times the vertical delta, and has every other
  call leave the pitch alone. On a focused panel at the start (pitch 0), with the left
  button held, a motion of 10 downwards gives pitch -1, not 1; and a key event (type
  0x300) met with pitch 100 gives pitch 89.
\<close>

theorem C4_pointer_motion_counterexample:
  "pitch (scene_processevent ((scene_start True 0)\<lparr>scene_focused := True\<rparr>)
      \<lparr>ev_type = SDL_MOUSEMOTION, motion_xrel = 0, motion_yrel = 10\<rparr> 1) = - 1 \<and>
   pitch (scene_processevent ((scene_start True 0)\<lparr>scene_focused := True\<rparr>)
      \<lparr>ev_type = SDL_MOUSEMOTION, motion_xrel = 0, motion_yrel = 10\<rparr> 1)
   \<noteq> max (- 89) (min 89 (pitch ((scene_start True 0)\<lparr>scene_focused := True\<rparr>)
        + 0.1 * real_of_int (sint (motion_yrel
            \<lparr>ev_type = SDL_MOUSEMOTION, motion_xrel = 0, motion_yrel = 10\<rparr>)))) \<and>
   pitch ((scene_start True 0)\<lparr>pitch := 100\<rparr>) = 100 \<and>
   pitch (scene_processevent ((scene_start True 0)\<lparr>pitch := 100\<rparr>)
      \<lparr>ev_type = 0x300, motion_xrel = 0, motion_yrel = 0\<rparr> 0) = 89"
  by (simp add: pitch_processevent scene_start_def SDL_BUTTON_LMASK_def SDL_MOUSEMOTION_def)

subsection \<open>Yaw as a C float\<close>

text \<open>Rounding to the nearest integer, and to \<open>p\<close> binary digits.\<close>

lemma round_even_of_int: "round_even (of_int n) = n"
  by (simp add: round_even_def)

lemma round_even_bounds:
  "of_int (round_even q) - q \<le> 1 / 2 \<and> q - of_int (round_even q) \<le> 1 / 2"
  unfolding round_even_def Let_def by (auto; linarith)

lemma round_even_floor_or_ceil:
  "round_even q = \<lfloor>q\<rfloor> \<or> round_even q = \<lfloor>q\<rfloor> + 1"
  unfolding round_even_def Let_def by auto

lemma round_even_mono:
  assumes "q \<le> q'"
  shows "round_even q \<le> round_even q'"
proof (cases "\<lfloor>q\<rfloor> = \<lfloor>q'\<rfloor>")
  case True
  then show ?thesis
    using assms unfolding round_even_def Let_def by (auto; linarith)
next
  case False
  then have "\<lfloor>q\<rfloor> + 1 \<le> \<lfloor>q'\<rfloor>"
    using floor_mono [OF assms] by linarith
  moreover have "round_even q \<le> \<lfloor>q\<rfloor> + 1"
    using round_even_floor_or_ceil [of q] by linarith
  moreover have "\<lfloor>q'\<rfloor> \<le> round_even q'"
    using round_even_floor_or_ceil [of q'] by linarith
  ultimately show ?thesis by linarith
qed

lemma round_even_minus: "round_even (- q) = - round_even q"
proof (cases "q = of_int \<lfloor>q\<rfloor>")
  case True
  then obtain n where "q = of_int n" by metis
  then show ?thesis
    using round_even_of_int [of n] round_even_of_int [of "- n"] by simp
next
  case False
  then have fl: "\<lfloor>- q\<rfloor> = - \<lfloor>q\<rfloor> - 1"
    by (simp add: floor_minus ceiling_altdef)
  have r: "0 < q - of_int \<lfloor>q\<rfloor>" "q - of_int \<lfloor>q\<rfloor> < 1"
    using False by linarith+
  show ?thesis
    unfolding round_even_def Let_def fl using r by (auto; linarith?)
qed


lemma ieee_round_minus: "ieee_round p (- x) = - ieee_round p x"
  by (simp add: ieee_round_def Let_def round_even_minus)

lemma binade:
  assumes "0 < x"
  shows "2 powr of_int \<lfloor>log 2 x\<rfloor> \<le> x \<and> x < 2 powr of_int (\<lfloor>log 2 x\<rfloor> + 1)"
  using floor_log_eq_powr_iff [of x 2 "\<lfloor>log 2 x\<rfloor>"] assms by simp

lemma ieee_round_eval:
  assumes "0 < x" "2 powr of_int e \<le> x" "x < 2 powr of_int (e + 1)"
  shows "ieee_round p x =
     of_int (round_even (x / 2 powr of_int (e - int p + 1))) * 2 powr of_int (e - int p + 1)"
proof -
  have "\<lfloor>log 2 x\<rfloor> = e"
    using floor_log_eq_powr_iff [of x 2 e] assms by simp
  then show ?thesis
    using assms(1) by (simp add: ieee_round_def Let_def)
qed

lemma ieee_round_in_binade:
  assumes "0 < x" "2 powr of_int e \<le> x" "x < 2 powr of_int (e + 1)" "0 < p"
  shows "2 powr of_int e \<le> ieee_round p x \<and> ieee_round p x \<le> 2 powr of_int (e + 1)"
proof -
  let ?u = "2 powr of_int (e - int p + 1) :: real"
  have u: "0 < ?u" by simp
  have lo: "2 powr of_int e = of_int (2 ^ (p - 1)) * ?u"
  proof -
    have "real (p - 1) = of_int (int p - 1)"
      using assms(4) by (simp add: of_nat_diff)
    moreover have "of_int (2 ^ (p - 1)) = (2 :: real) powr real (p - 1)"
      by (simp add: powr_realpow)
    ultimately have "of_int (2 ^ (p - 1)) = (2 :: real) powr of_int (int p - 1)"
      by simp
    then have "of_int (2 ^ (p - 1)) * ?u = 2 powr (of_int (int p - 1) + of_int (e - int p + 1))"
      by (simp only: powr_add)
    then show ?thesis by simp
  qed
  have hi: "2 powr of_int (e + 1) = of_int (2 ^ p) * ?u"
  proof -
    have "of_int (2 ^ p) = (2 :: real) powr of_int (int p)"
      by (simp add: powr_realpow)
    then have "of_int (2 ^ p) * ?u = 2 powr (of_int (int p) + of_int (e - int p + 1))"
      by (simp only: powr_add)
    then show ?thesis by simp
  qed
  have "of_int (2 ^ (p - 1)) \<le> x / ?u"
    using assms(2) u unfolding lo by (simp add: field_simps)
  then have a: "2 ^ (p - 1) \<le> round_even (x / ?u)"
    using round_even_mono [of "of_int (2 ^ (p - 1))" "x / ?u"] by (simp only: round_even_of_int)
  have "x / ?u \<le> of_int (2 ^ p)"
    using assms(3) u unfolding hi by (simp add: field_simps)
  then have b: "round_even (x / ?u) \<le> 2 ^ p"
    using round_even_mono [of "x / ?u" "of_int (2 ^ p)"] by (simp only: round_even_of_int)
  have "of_int (2 ^ (p - 1)) * ?u \<le> of_int (round_even (x / ?u)) * ?u"
    using a u by (intro mult_right_mono) simp_all
  moreover have "of_int (round_even (x / ?u)) * ?u \<le> of_int (2 ^ p) * ?u"
    using b u by (intro mult_right_mono) simp_all
  ultimately show ?thesis
    unfolding ieee_round_eval [OF assms(1,2,3)] lo hi by simp
qed

lemma ieee_round_mono_pos:
  assumes "0 < x" "x \<le> y" "0 < p"
  shows "ieee_round p x \<le> ieee_round p y"
proof -
  have y: "0 < y" using assms by simp
  let ?ex = "\<lfloor>log 2 x\<rfloor>" and ?ey = "\<lfloor>log 2 y\<rfloor>"
  note bx = binade [OF assms(1)] and bnd = binade [OF y]
  have le: "?ex \<le> ?ey"
    using assms y by (intro floor_mono) simp
  show ?thesis
  proof (cases "?ex = ?ey")
    case True
    let ?u = "2 powr of_int (?ey - int p + 1) :: real"
    have "x / ?u \<le> y / ?u"
      using assms(2) by (simp add: divide_right_mono)
    then have "of_int (round_even (x / ?u)) * ?u \<le> of_int (round_even (y / ?u)) * ?u"
      using round_even_mono by (intro mult_right_mono) simp_all
    then show ?thesis
      using assms(1) y True by (simp add: ieee_round_def Let_def)
  next
    case False
    then have lt: "?ex + 1 \<le> ?ey" using le by simp
    have "ieee_round p x \<le> 2 powr of_int (?ex + 1)"
      using ieee_round_in_binade [OF assms(1) _ _ assms(3), of ?ex] bx by simp
    also have "\<dots> \<le> 2 powr of_int ?ey"
      using lt by (intro powr_mono) simp_all
    also have "\<dots> \<le> ieee_round p y"
      using ieee_round_in_binade [OF y _ _ assms(3), of ?ey] bnd by simp
    finally show ?thesis .
  qed
qed

lemma ieee_round_pos:
  assumes "0 < x" "0 < p"
  shows "0 < ieee_round p x"
proof -
  have "(0 :: real) < 2 powr of_int \<lfloor>log 2 x\<rfloor>" by simp
  also have "\<dots> \<le> ieee_round p x"
    using ieee_round_in_binade [OF assms(1) _ _ assms(2), of "\<lfloor>log 2 x\<rfloor>"] binade [OF assms(1)]
    by simp
  finally show ?thesis .
qed

lemma ieee_round_mono:
  assumes "x \<le> y" "0 < p"
  shows "ieee_round p x \<le> ieee_round p y"
proof -
  consider "0 < x" | "y < 0" | "x \<le> 0" "0 \<le> y" by linarith
  then show ?thesis
  proof cases
    case 1
    then show ?thesis using assms by (rule ieee_round_mono_pos)
  next
    case 2
    then have "ieee_round p (- y) \<le> ieee_round p (- x)"
      using assms by (intro ieee_round_mono_pos) simp_all
    then show ?thesis by (simp add: ieee_round_minus)
  next
    case 3
    have "ieee_round p x \<le> 0"
    proof (cases "x = 0")
      case True
      then show ?thesis by (simp add: ieee_round_def)
    next
      case False
      then have "0 < ieee_round p (- x)"
        using 3 assms(2) by (intro ieee_round_pos) simp_all
      then show ?thesis by (simp add: ieee_round_minus)
    qed
    moreover have "0 \<le> ieee_round p y"
    proof (cases "y = 0")
      case True
      then show ?thesis by (simp add: ieee_round_def)
    next
      case False
      then have "0 < ieee_round p y"
        using 3 assms(2) by (intro ieee_round_pos) simp_all
      then show ?thesis by simp
    qed
    ultimately show ?thesis by linarith
  qed
qed


lemma ieee_round_eval_pos:
  assumes "0 < x" "2 powr of_int e \<le> x" "x < 2 powr of_int (e + 1)"
    and "u = 2 powr of_int (e - int p + 1)" and "round_even (x / u) = n"
  shows "ieee_round p x = of_int n * u"
  using ieee_round_eval [OF assms(1,2,3), of p] assms(4,5) by simp

lemma ieee_round_eval_neg:
  assumes "0 < x" "2 powr of_int e \<le> x" "x < 2 powr of_int (e + 1)"
    and "u = 2 powr of_int (e - int p + 1)" and "round_even (x / u) = n"
  shows "ieee_round p (- x) = - (of_int n * u)"
  using ieee_round_eval_pos [OF assms] by (simp add: ieee_round_minus)

lemma double_0_1: "ieee_round 53 (1 / 10) = 3602879701896397 / 2 ^ 55"
proof -
  have "ieee_round 53 (1 / 10) = of_int 7205759403792794 * (1 / 2 ^ 56)"
  proof (rule ieee_round_eval_pos [where e = "- 4"])
    show "(1 / 2 ^ 56 :: real) = 2 powr of_int (- 4 - int 53 + 1)"
      by (simp add: powr_neg_numeral)
    show "round_even (1 / 10 / (1 / 2 ^ 56)) = 7205759403792794"
      by (simp add: round_even_def Let_def)
  qed (simp_all add: powr_neg_numeral)
  then show ?thesis by simp
qed

text \<open>The values the two roundings take on the inputs used below.\<close>

lemma round_tenth: "ieee_round 53 (3602879701896397 / 2 ^ 55) = 3602879701896397 / 2 ^ 55"
proof -
  have "ieee_round 53 (3602879701896397 / 2 ^ 55) = of_int 7205759403792794 * (1 / 2 ^ 56)"
  proof (rule ieee_round_eval_pos [where e = "- 4"])
    show "(1 / 2 ^ 56 :: real) = 2 powr of_int (- 4 - int 53 + 1)"
      by (simp add: powr_neg_numeral)
    show "round_even (3602879701896397 / 2 ^ 55 / (1 / 2 ^ 56)) = 7205759403792794"
      by (simp add: round_even_def Let_def)
  qed (simp_all add: powr_neg_numeral)
  then show ?thesis by simp
qed

lemma first_sum:
  "ieee_round 53 (- 90 + 3602879701896397 / 2 ^ 55) = - (6326150101571994 / 2 ^ 46)"
proof -
  have "ieee_round 53 (- (90 - 3602879701896397 / 2 ^ 55))
      = - (of_int 6326150101571994 * (1 / 2 ^ 46))"
  proof (rule ieee_round_eval_neg [where e = 6])
    show "(1 / 2 ^ 46 :: real) = 2 powr of_int (6 - int 53 + 1)"
      by (simp add: powr_neg_numeral)
    show "round_even ((90 - 3602879701896397 / 2 ^ 55) / (1 / 2 ^ 46)) = 6326150101571994"
      by (simp add: round_even_def Let_def)
  qed simp_all
  then show ?thesis by simp
qed

lemma first_store:
  "ieee_round 24 (- (6326150101571994 / 2 ^ 46)) = - (11783373 / 2 ^ 17)"
proof -
  have "ieee_round 24 (- (6326150101571994 / 2 ^ 46)) = - (of_int 11783373 * (1 / 2 ^ 17))"
  proof (rule ieee_round_eval_neg [where e = 6])
    show "(1 / 2 ^ 17 :: real) = 2 powr of_int (6 - int 24 + 1)"
      by (simp add: powr_neg_numeral)
    show "round_even (6326150101571994 / 2 ^ 46 / (1 / 2 ^ 17)) = 11783373"
      by (simp add: round_even_def Let_def)
  qed simp_all
  then show ?thesis by simp
qed


lemma round_thousand: "ieee_round 53 (10000 * (3602879701896397 / 2 ^ 55)) = 1000"
proof -
  have "ieee_round 53 (10000 * (3602879701896397 / 2 ^ 55)) = of_int 8796093022208000 * (1 / 2 ^ 43)"
  proof (rule ieee_round_eval_pos [where e = 9])
    show "(1 / 2 ^ 43 :: real) = 2 powr of_int (9 - int 53 + 1)"
      by (simp add: powr_neg_numeral)
    show "round_even ((10000 * (3602879701896397 / 2 ^ 55)) / (1 / 2 ^ 43)) = 8796093022208000"
      by (simp add: round_even_def Let_def)
  qed (simp_all add: powr_neg_numeral)
  then show ?thesis by simp
qed

lemma round_910_double: "ieee_round 53 (910) = 910"
proof -
  have "ieee_round 53 (910) = of_int 8004444650209280 * (1 / 2 ^ 43)"
  proof (rule ieee_round_eval_pos [where e = 9])
    show "(1 / 2 ^ 43 :: real) = 2 powr of_int (9 - int 53 + 1)"
      by (simp add: powr_neg_numeral)
    show "round_even ((910) / (1 / 2 ^ 43)) = 8004444650209280"
      by (simp add: round_even_def Let_def)
  qed (simp_all add: powr_neg_numeral)
  then show ?thesis by simp
qed

lemma round_910_float: "ieee_round 24 (910) = 910"
proof -
  have "ieee_round 24 (910) = of_int 14909440 * (1 / 2 ^ 14)"
  proof (rule ieee_round_eval_pos [where e = 9])
    show "(1 / 2 ^ 14 :: real) = 2 powr of_int (9 - int 24 + 1)"
      by (simp add: powr_neg_numeral)
    show "round_even ((910) / (1 / 2 ^ 14)) = 14909440"
      by (simp add: round_even_def Let_def)
  qed (simp_all add: powr_neg_numeral)
  then show ?thesis by simp
qed

lemma round_2_28: "ieee_round 53 (2 ^ 28) = 2 ^ 28"
proof -
  have "ieee_round 53 (2 ^ 28) = of_int 4503599627370496 * (1 / 2 ^ 24)"
  proof (rule ieee_round_eval_pos [where e = 28])
    show "(1 / 2 ^ 24 :: real) = 2 powr of_int (28 - int 53 + 1)"
      by (simp add: powr_neg_numeral)
    show "round_even ((2 ^ 28) / (1 / 2 ^ 24)) = 4503599627370496"
      by (simp add: round_even_def Let_def)
  qed (simp_all add: powr_neg_numeral)
  then show ?thesis by simp
qed

lemma round_top_double: "ieee_round 53 (2 ^ 54 + 2 ^ 28) = 2 ^ 54 + 2 ^ 28"
proof -
  have "ieee_round 53 (2 ^ 54 + 2 ^ 28) = of_int 4503599694479360 * 2 ^ 2"
  proof (rule ieee_round_eval_pos [where e = 54])
    show "(2 ^ 2 :: real) = 2 powr of_int (54 - int 53 + 1)"
      by (simp add: powr_neg_numeral)
    show "round_even ((2 ^ 54 + 2 ^ 28) / 2 ^ 2) = 4503599694479360"
      by (simp add: round_even_def Let_def)
  qed (simp_all add: powr_neg_numeral)
  then show ?thesis by simp
qed

lemma round_top_float: "ieee_round 24 (2 ^ 54 + 2 ^ 28) = 2 ^ 54"
proof -
  have "ieee_round 24 (2 ^ 54 + 2 ^ 28) = of_int 8388608 * 2 ^ 31"
  proof (rule ieee_round_eval_pos [where e = 54])
    show "(2 ^ 31 :: real) = 2 powr of_int (54 - int 24 + 1)"
      by (simp add: powr_neg_numeral)
    show "round_even ((2 ^ 54 + 2 ^ 28) / 2 ^ 31) = 8388608"
      by (simp add: round_even_def Let_def)
  qed (simp_all add: powr_neg_numeral)
  then show ?thesis by simp
qed

lemma round_int_max: "ieee_round 53 (2147483647 * (3602879701896397 / 2 ^ 55)) = 7205759400437351 / 2 ^ 25"
proof -
  have "ieee_round 53 (2147483647 * (3602879701896397 / 2 ^ 55)) = of_int 7205759400437351 * (1 / 2 ^ 25)"
  proof (rule ieee_round_eval_pos [where e = 27])
    show "(1 / 2 ^ 25 :: real) = 2 powr of_int (27 - int 53 + 1)"
      by (simp add: powr_neg_numeral)
    show "round_even ((2147483647 * (3602879701896397 / 2 ^ 55)) / (1 / 2 ^ 25)) = 7205759400437351"
      by (simp add: round_even_def Let_def)
  qed (simp_all add: powr_neg_numeral)
  then show ?thesis by simp
qed

lemma round_2_52_sum: "ieee_round 53 (2 ^ 52 + 7205759400437351 / 2 ^ 25) = 2 ^ 52 + 214748365"
proof -
  have "ieee_round 53 (2 ^ 52 + 7205759400437351 / 2 ^ 25) = of_int 4503599842118861 * 1"
  proof (rule ieee_round_eval_pos [where e = 52])
    show "(1 :: real) = 2 powr of_int (52 - int 53 + 1)"
      by (simp add: powr_neg_numeral)
    show "round_even ((2 ^ 52 + 7205759400437351 / 2 ^ 25) / 1) = 4503599842118861"
      by (simp add: round_even_def Let_def)
  qed (simp_all add: powr_neg_numeral)
  then show ?thesis by simp
qed

lemma round_2_52_store: "ieee_round 24 (2 ^ 52 + 214748365) = 2 ^ 52"
proof -
  have "ieee_round 24 (2 ^ 52 + 214748365) = of_int 8388608 * 2 ^ 29"
  proof (rule ieee_round_eval_pos [where e = 52])
    show "(2 ^ 29 :: real) = 2 powr of_int (52 - int 24 + 1)"
      by (simp add: powr_neg_numeral)
    show "round_even ((2 ^ 52 + 214748365) / 2 ^ 29) = 8388608"
      by (simp add: round_even_def Let_def)
  qed (simp_all add: powr_neg_numeral)
  then show ?thesis by simp
qed

lemma round_2_24_sum: "ieee_round 53 (2 ^ 24 + 3602879701896397 / 2 ^ 55) = 2 ^ 24 + 26843546 / 2 ^ 28"
proof -
  have "ieee_round 53 (2 ^ 24 + 3602879701896397 / 2 ^ 55) = of_int 4503599654214042 * (1 / 2 ^ 28)"
  proof (rule ieee_round_eval_pos [where e = 24])
    show "(1 / 2 ^ 28 :: real) = 2 powr of_int (24 - int 53 + 1)"
      by (simp add: powr_neg_numeral)
    show "round_even ((2 ^ 24 + 3602879701896397 / 2 ^ 55) / (1 / 2 ^ 28)) = 4503599654214042"
      by (simp add: round_even_def Let_def)
  qed (simp_all add: powr_neg_numeral)
  then show ?thesis by simp
qed

lemma round_2_24_store: "ieee_round 24 (2 ^ 24 + 26843546 / 2 ^ 28) = 2 ^ 24"
proof -
  have "ieee_round 24 (2 ^ 24 + 26843546 / 2 ^ 28) = of_int 8388608 * 2 ^ 1"
  proof (rule ieee_round_eval_pos [where e = 24])
    show "(2 ^ 1 :: real) = 2 powr of_int (24 - int 24 + 1)"
      by (simp add: powr_neg_numeral)
    show "round_even ((2 ^ 24 + 26843546 / 2 ^ 28) / 2 ^ 1) = 8388608"
      by (simp add: round_even_def Let_def)
  qed (simp_all add: powr_neg_numeral)
  then show ?thesis by simp
qed


lemma c_double_tenth: "c_double 0.1 = 3602879701896397 / 2 ^ 55"
  using double_0_1 by (simp add: c_double_def)

lemma abs_le_both:
  fixes x m :: real
  shows "x \<le> m \<Longrightarrow> - m \<le> x \<Longrightarrow> \<bar>x\<bar> \<le> m"
  by linarith

lemma increment_bound:
  fixes w :: "32 word"
  shows "\<bar>c_double (real_of_int (sint w) * c_double 0.1)\<bar> \<le> 2 ^ 28"
proof -
  let ?c = "3602879701896397 / 2 ^ 55 :: real"
  have "- (2 ^ 31) \<le> sint w" using sint_ge [of w] by simp
  then have "real_of_int (- (2 ^ 31)) \<le> real_of_int (sint w)"
    by (simp only: of_int_le_iff)
  then have lo: "- (2 ^ 31) \<le> real_of_int (sint w)" by simp
  have "sint w \<le> 2 ^ 31" using sint_lt [of w] by simp
  then have "real_of_int (sint w) \<le> real_of_int (2 ^ 31)"
    by (simp only: of_int_le_iff)
  then have hi: "real_of_int (sint w) \<le> 2 ^ 31" by simp
  have c: "0 \<le> ?c" "?c \<le> 1 / 8" by simp_all
  have "real_of_int (sint w) * ?c \<le> 2 ^ 31 * ?c"
    using hi c(1) by (intro mult_right_mono) simp_all
  then have up: "real_of_int (sint w) * ?c \<le> 2 ^ 28" using c(2) by simp
  have "- (2 ^ 31) * ?c \<le> real_of_int (sint w) * ?c"
    using lo c(1) by (intro mult_right_mono) simp_all
  then have dn: "- (2 ^ 28) \<le> real_of_int (sint w) * ?c" using c(2) by simp
  have "ieee_round 53 (real_of_int (sint w) * ?c) \<le> ieee_round 53 (2 ^ 28)"
    by (rule ieee_round_mono [OF up]) simp
  also have "\<dots> = 2 ^ 28" by (rule round_2_28)
  finally have a: "ieee_round 53 (real_of_int (sint w) * ?c) \<le> 2 ^ 28" .
  have "- (2 ^ 28) = ieee_round 53 (- (2 ^ 28))"
    by (simp only: ieee_round_minus round_2_28)
  also have "\<dots> \<le> ieee_round 53 (real_of_int (sint w) * ?c)"
    by (rule ieee_round_mono [OF dn]) simp
  finally have b: "- (2 ^ 28) \<le> ieee_round 53 (real_of_int (sint w) * ?c)" .
  have "c_double (real_of_int (sint w) * c_double 0.1) = ieee_round 53 (real_of_int (sint w) * ?c)"
    by (simp only: c_double_tenth) (simp only: c_double_def)
  then show ?thesis
    using abs_le_both [OF a b] by simp
qed

lemma add_assign_bound:
  assumes "\<bar>y\<bar> \<le> 2 ^ 54" "\<bar>d\<bar> \<le> 2 ^ 28"
  shows "\<bar>c_float (c_double (y + d))\<bar> \<le> 2 ^ 54"
proof -
  have up: "y + d \<le> 2 ^ 54 + 2 ^ 28" and dn: "- (2 ^ 54 + 2 ^ 28) \<le> y + d"
    using assms by linarith+
  have "ieee_round 53 (y + d) \<le> ieee_round 53 (2 ^ 54 + 2 ^ 28)"
    by (rule ieee_round_mono [OF up]) simp
  also have "\<dots> = 2 ^ 54 + 2 ^ 28" by (rule round_top_double)
  finally have "ieee_round 24 (ieee_round 53 (y + d)) \<le> ieee_round 24 (2 ^ 54 + 2 ^ 28)"
    by (rule ieee_round_mono) simp
  also have "\<dots> = 2 ^ 54" by (rule round_top_float)
  finally have a: "ieee_round 24 (ieee_round 53 (y + d)) \<le> 2 ^ 54" .
  have "- (2 ^ 54 + 2 ^ 28) = ieee_round 53 (- (2 ^ 54 + 2 ^ 28))"
    by (simp only: ieee_round_minus round_top_double)
  also have "\<dots> \<le> ieee_round 53 (y + d)"
    by (rule ieee_round_mono [OF dn]) simp
  finally have "ieee_round 24 (- (2 ^ 54 + 2 ^ 28)) \<le> ieee_round 24 (ieee_round 53 (y + d))"
    by (rule ieee_round_mono) simp
  moreover have "ieee_round 24 (- (2 ^ 54 + 2 ^ 28)) = - (2 ^ 54)"
    by (simp only: ieee_round_minus round_top_float)
  ultimately have b: "- (2 ^ 54) \<le> ieee_round 24 (ieee_round 53 (y + d))"
    by simp
  show ?thesis
    unfolding c_float_def c_double_def by (rule abs_le_both [OF a b])
qed

lemma yaw_processevent_ieee:
  "yaw (scene_processevent_ieee s e mouse) =
     (if ev_type e = SDL_MOUSEMOTION \<and> scene_focused s \<and> mouse AND SDL_BUTTON_LMASK \<noteq> 0
      then c_float (c_double (yaw s
             + c_double (real_of_int (sint (motion_xrel e)) * c_double 0.1)))
      else yaw s)"
proof -
  have gen: "\<And>c y p.
    yaw (let s1 = (if c then s\<lparr>yaw := y, pitch := p\<rparr> else s);
         s2 = (if pitch s1 > 89.0 then s1\<lparr>pitch := 89.0\<rparr> else s1);
         s3 = (if pitch s2 < - 89.0 then s2\<lparr>pitch := - 89.0\<rparr> else s2)
     in s3) = (if c then y else yaw s)"
  proof -
    fix c :: bool and y p :: real
    show "yaw (let s1 = (if c then s\<lparr>yaw := y, pitch := p\<rparr> else s);
         s2 = (if pitch s1 > 89.0 then s1\<lparr>pitch := 89.0\<rparr> else s1);
         s3 = (if pitch s2 < - 89.0 then s2\<lparr>pitch := - 89.0\<rparr> else s2)
     in s3) = (if c then y else yaw s)"
      by (cases c) (simp_all add: Let_def)
  qed
  show ?thesis
    unfolding scene_processevent_ieee_def by (rule gen)
qed

lemma yaw_ieee_step_bound:
  assumes "\<bar>yaw s\<bar> \<le> 2 ^ 54"
  shows "\<bar>yaw (scene_processevent_ieee s e mouse)\<bar> \<le> 2 ^ 54"
proof (cases "ev_type e = SDL_MOUSEMOTION \<and> scene_focused s \<and> mouse AND SDL_BUTTON_LMASK \<noteq> 0")
  case True
  have "yaw (scene_processevent_ieee s e mouse) =
      c_float (c_double (yaw s + c_double (real_of_int (sint (motion_xrel e)) * c_double 0.1)))"
    unfolding yaw_processevent_ieee by (simp only: True if_True) simp
  then show ?thesis
    using add_assign_bound [OF assms increment_bound] by simp
next
  case False
  have "yaw (scene_processevent_ieee s e mouse) = yaw s"
    unfolding yaw_processevent_ieee by (simp only: False if_False)
  then show ?thesis using assms by simp
qed

lemma yaw_ieee_run_bound:
  "\<bar>yaw s\<bar> \<le> 2 ^ 54 \<Longrightarrow> \<bar>yaw (scene_processevents_ieee s es)\<bar> \<le> 2 ^ 54"
proof (induction es arbitrary: s)
  case Nil
  then show ?case by simp
next
  case (Cons x es)
  obtain e mouse where x: "x = (e, mouse)" by (cases x)
  show ?case
    unfolding x scene_processevents_ieee.simps
    by (rule Cons.IH) (rule yaw_ieee_step_bound [OF Cons.prems])
qed

lemma ieee_round_error:
  assumes "0 < p"
  shows "\<bar>ieee_round p x - x\<bar> \<le> \<bar>x\<bar> / 2 ^ p"
proof -
  have pos: "\<bar>ieee_round p a - a\<bar> \<le> a / 2 ^ p" if a: "0 < a" for a
  proof -
    let ?e = "\<lfloor>log 2 a\<rfloor>"
    let ?u = "2 powr of_int (?e - int p + 1) :: real"
    have u: "0 < ?u" by simp
    have r: "ieee_round p a = of_int (round_even (a / ?u)) * ?u"
      using a by (simp add: ieee_round_def Let_def)
    have "ieee_round p a - a = (of_int (round_even (a / ?u)) - a / ?u) * ?u"
      unfolding r using u by (simp add: field_simps)
    then have "\<bar>ieee_round p a - a\<bar> = \<bar>of_int (round_even (a / ?u)) - a / ?u\<bar> * ?u"
      using u by (simp add: abs_mult)
    also have "\<dots> \<le> 1 / 2 * ?u"
    proof -
      have "\<bar>of_int (round_even (a / ?u)) - a / ?u\<bar> \<le> 1 / 2"
        using round_even_bounds [of "a / ?u"] by linarith
      then show ?thesis using u by (intro mult_right_mono) simp_all
    qed
    also have "1 / 2 * ?u = 2 powr of_int ?e / 2 ^ p"
    proof -
      have "(2 :: real) ^ p = 2 powr of_int (int p)" by (simp add: powr_realpow)
      moreover have "(1 / 2 :: real) = 2 powr of_int (- 1)" by (simp add: powr_neg_numeral)
      ultimately have "1 / 2 * ?u * 2 ^ p
          = 2 powr (of_int (- 1) + of_int (?e - int p + 1) + of_int (int p))"
        by (simp only: powr_add)
      then have "1 / 2 * ?u * 2 ^ p = 2 powr of_int ?e" by simp
      then show ?thesis by (simp add: field_simps)
    qed
    also have "\<dots> \<le> a / 2 ^ p"
      using binade [OF a] by (simp add: divide_right_mono)
    finally show ?thesis .
  qed
  consider "x = 0" | "0 < x" | "x < 0" by linarith
  then show ?thesis
  proof cases
    case 1
    then show ?thesis by (simp add: ieee_round_def)
  next
    case 2
    then show ?thesis using pos [of x] by simp
  next
    case 3
    then have "\<bar>ieee_round p (- x) - (- x)\<bar> \<le> (- x) / 2 ^ p"
      using pos [of "- x"] by simp
    then show ?thesis using 3 by (simp add: ieee_round_minus abs_minus_commute)
  qed
qed


lemma yaw_ieee_motion:
  "ev_type e = SDL_MOUSEMOTION \<Longrightarrow> scene_focused s \<Longrightarrow> mouse AND SDL_BUTTON_LMASK \<noteq> 0 \<Longrightarrow>
   yaw (scene_processevent_ieee s e mouse) =
     c_float (c_double (yaw s + c_double (real_of_int (sint (motion_xrel e)) * c_double 0.1)))"
  unfolding yaw_processevent_ieee by simp

lemma yaw_exact_motion:
  "ev_type e = SDL_MOUSEMOTION \<Longrightarrow> scene_focused s \<Longrightarrow> mouse AND SDL_BUTTON_LMASK \<noteq> 0 \<Longrightarrow>
   yaw (scene_processevent s e mouse) = yaw s + 0.1 * real_of_int (sint (motion_xrel e))"
  unfolding yaw_processevent by simp

lemma first_event_yaw:
  "yaw (scene_processevent_ieee ((scene_start True 0)\<lparr>scene_focused := True\<rparr>)
      \<lparr>ev_type = SDL_MOUSEMOTION, motion_xrel = 1, motion_yrel = 0\<rparr> 1) = - (11783373 / 2 ^ 17)"
proof -
  have "yaw (scene_processevent_ieee ((scene_start True 0)\<lparr>scene_focused := True\<rparr>) \<lparr>ev_type = SDL_MOUSEMOTION, motion_xrel = 1, motion_yrel = 0\<rparr> 1) =
      c_float (c_double (yaw ((scene_start True 0)\<lparr>scene_focused := True\<rparr>) + c_double (real_of_int (sint (1 :: 32 word)) * c_double 0.1)))"
    by (simp add: yaw_ieee_motion SDL_BUTTON_LMASK_def)
  also have "\<dots> = ieee_round 24 (ieee_round 53 (- 90 + ieee_round 53 (3602879701896397 / 2 ^ 55)))"
    by (simp add: c_double_tenth scene_start_def) (simp add: c_double_def c_float_def)
  also have "\<dots> = - (11783373 / 2 ^ 17)"
    by (simp only: round_tenth first_sum first_store)
  finally show ?thesis .
qed

lemma big_event_yaw:
  "yaw (scene_processevent_ieee ((scene_start True 0)\<lparr>scene_focused := True\<rparr>)
      \<lparr>ev_type = SDL_MOUSEMOTION, motion_xrel = 10000, motion_yrel = 0\<rparr> 1) = 910"
proof -
  have "yaw (scene_processevent_ieee ((scene_start True 0)\<lparr>scene_focused := True\<rparr>) \<lparr>ev_type = SDL_MOUSEMOTION, motion_xrel = 10000, motion_yrel = 0\<rparr> 1) =
      c_float (c_double (yaw ((scene_start True 0)\<lparr>scene_focused := True\<rparr>) + c_double (real_of_int (sint (10000 :: 32 word)) * c_double 0.1)))"
    by (simp add: yaw_ieee_motion SDL_BUTTON_LMASK_def)
  also have "\<dots> = ieee_round 24 (ieee_round 53 (- 90 + ieee_round 53 (10000 * (3602879701896397 / 2 ^ 55))))"
    by (simp add: c_double_tenth scene_start_def) (simp add: c_double_def c_float_def)
  also have "\<dots> = ieee_round 24 (ieee_round 53 910)"
    by (simp only: round_thousand) simp
  also have "\<dots> = 910"
    by (simp only: round_910_double round_910_float)
  finally show ?thesis .
qed

lemma absorbed_at_2_52:
  "yaw (scene_processevent_ieee (((scene_start True 0)\<lparr>scene_focused := True\<rparr>)\<lparr>yaw := 2 ^ 52\<rparr>) \<lparr>ev_type = SDL_MOUSEMOTION, motion_xrel = 2147483647, motion_yrel = 0\<rparr> 1) = 2 ^ 52"
proof -
  have "yaw (scene_processevent_ieee (((scene_start True 0)\<lparr>scene_focused := True\<rparr>)\<lparr>yaw := 2 ^ 52\<rparr>) \<lparr>ev_type = SDL_MOUSEMOTION, motion_xrel = 2147483647, motion_yrel = 0\<rparr> 1) =
      c_float (c_double (yaw (((scene_start True 0)\<lparr>scene_focused := True\<rparr>)\<lparr>yaw := 2 ^ 52\<rparr>)
        + c_double (real_of_int (sint (2147483647 :: 32 word)) * c_double 0.1)))"
    by (simp add: yaw_ieee_motion SDL_BUTTON_LMASK_def)
  also have "\<dots> = ieee_round 24 (ieee_round 53 (2 ^ 52
        + ieee_round 53 (2147483647 * (3602879701896397 / 2 ^ 55))))"
    by (simp add: c_double_tenth) (simp add: c_double_def c_float_def)
  also have "\<dots> = 2 ^ 52"
    by (simp only: round_int_max round_2_52_sum round_2_52_store)
  finally show ?thesis .
qed

lemma absorbed_at_2_24:
  "yaw (scene_processevent_ieee (((scene_start True 0)\<lparr>scene_focused := True\<rparr>)\<lparr>yaw := 2 ^ 24\<rparr>) \<lparr>ev_type = SDL_MOUSEMOTION, motion_xrel = 1, motion_yrel = 0\<rparr> 1) = 2 ^ 24"
proof -
  have "yaw (scene_processevent_ieee (((scene_start True 0)\<lparr>scene_focused := True\<rparr>)\<lparr>yaw := 2 ^ 24\<rparr>) \<lparr>ev_type = SDL_MOUSEMOTION, motion_xrel = 1, motion_yrel = 0\<rparr> 1) =
      c_float (c_double (yaw (((scene_start True 0)\<lparr>scene_focused := True\<rparr>)\<lparr>yaw := 2 ^ 24\<rparr>)
        + c_double (real_of_int (sint (1 :: 32 word)) * c_double 0.1)))"
    by (simp add: yaw_ieee_motion SDL_BUTTON_LMASK_def)
  also have "\<dots> = ieee_round 24 (ieee_round 53 (2 ^ 24
        + ieee_round 53 (3602879701896397 / 2 ^ 55)))"
    by (simp add: c_double_tenth) (simp add: c_double_def c_float_def)
  also have "\<dots> = 2 ^ 24"
    by (simp only: round_tenth round_2_24_sum round_2_24_store)
  finally show ?thesis .
qed

text \<open>
  C10, as the code has it. Yaw is neither clamped nor wrapped: on a focused panel a
  mouse-motion event with the left button held stores the \<open>float\<close> nearest to the
  \<open>double\<close> sum of yaw and the \<open>double\<close> product of the horizontal delta and 0.1,
  which in exact arithmetic is yaw plus 0.1 times the delta. Each rounding changes its
  argument by at most the fraction 1/2^24 (\<open>float\<close>) or 1/2^53 (\<open>double\<close>) of it.
  Yaw is bounded all the same: once its absolute value is at most 2^54, as it is at
  the start, it stays so after every run of events.
\<close>

theorem C10_yaw_float_accumulation:
  "(ev_type e = SDL_MOUSEMOTION \<and> scene_focused s \<and> mouse AND SDL_BUTTON_LMASK \<noteq> 0 \<longrightarrow>
      yaw (scene_processevent_ieee s e mouse) =
        c_float (c_double (yaw s
          + c_double (real_of_int (sint (motion_xrel e)) * c_double 0.1))) \<and>
      yaw (scene_processevent s e mouse) = yaw s + 0.1 * real_of_int (sint (motion_xrel e))) \<and>
   \<bar>c_float x - x\<bar> \<le> \<bar>x\<bar> / 2 ^ 24 \<and>
   \<bar>c_double x - x\<bar> \<le> \<bar>x\<bar> / 2 ^ 53 \<and>
   (\<bar>yaw s\<bar> \<le> 2 ^ 54 \<longrightarrow> \<bar>yaw (scene_processevents_ieee s es)\<bar> \<le> 2 ^ 54)"
proof (intro conjI impI)
  assume c: "ev_type e = SDL_MOUSEMOTION \<and> scene_focused s \<and> mouse AND SDL_BUTTON_LMASK \<noteq> 0"
  show "yaw (scene_processevent_ieee s e mouse) =
        c_float (c_double (yaw s
          + c_double (real_of_int (sint (motion_xrel e)) * c_double 0.1)))"
    by (rule yaw_ieee_motion) (use c in blast)+
  show "yaw (scene_processevent s e mouse) = yaw s + 0.1 * real_of_int (sint (motion_xrel e))"
    by (rule yaw_exact_motion) (use c in blast)+
next
  show "\<bar>c_float x - x\<bar> \<le> \<bar>x\<bar> / 2 ^ 24"
    unfolding c_float_def by (rule ieee_round_error) simp
  show "\<bar>c_double x - x\<bar> \<le> \<bar>x\<bar> / 2 ^ 53"
    unfolding c_double_def by (rule ieee_round_error) simp
next
  assume "\<bar>yaw s\<bar> \<le> 2 ^ 54"
  then show "\<bar>yaw (scene_processevents_ieee s es)\<bar> \<le> 2 ^ 54"
    by (rule yaw_ieee_run_bound)
qed

theorem C10_yaw_float_accumulation_witness:
  "(ev_type \<lparr>ev_type = SDL_MOUSEMOTION, motion_xrel = 10000, motion_yrel = 0\<rparr> = SDL_MOUSEMOTION \<and> scene_focused ((scene_start True 0)\<lparr>scene_focused := True\<rparr>) \<and> (1 :: 32 word) AND SDL_BUTTON_LMASK \<noteq> 0) \<and>
   yaw ((scene_start True 0)\<lparr>scene_focused := True\<rparr>) = - 90 \<and>
   yaw (scene_processevent_ieee ((scene_start True 0)\<lparr>scene_focused := True\<rparr>) \<lparr>ev_type = SDL_MOUSEMOTION, motion_xrel = 10000, motion_yrel = 0\<rparr> 1) = 910 \<and>
   yaw (scene_processevent ((scene_start True 0)\<lparr>scene_focused := True\<rparr>) \<lparr>ev_type = SDL_MOUSEMOTION, motion_xrel = 10000, motion_yrel = 0\<rparr> 1) = 910 \<and>
   \<bar>yaw ((scene_start True 0)\<lparr>scene_focused := True\<rparr>)\<bar> \<le> 2 ^ 54 \<and>
   \<bar>yaw (scene_processevents_ieee ((scene_start True 0)\<lparr>scene_focused := True\<rparr>) [(\<lparr>ev_type = SDL_MOUSEMOTION, motion_xrel = 10000, motion_yrel = 0\<rparr>, 1), (\<lparr>ev_type = SDL_MOUSEMOTION, motion_xrel = 10000, motion_yrel = 0\<rparr>, 1)])\<bar> \<le> 2 ^ 54"
proof -
  have c: "ev_type \<lparr>ev_type = SDL_MOUSEMOTION, motion_xrel = 10000, motion_yrel = 0\<rparr> = SDL_MOUSEMOTION \<and> scene_focused ((scene_start True 0)\<lparr>scene_focused := True\<rparr>) \<and> (1 :: 32 word) AND SDL_BUTTON_LMASK \<noteq> 0"
    by (simp add: SDL_BUTTON_LMASK_def)
  have y: "yaw ((scene_start True 0)\<lparr>scene_focused := True\<rparr>) = - 90"
    by (simp add: scene_start_def)
  have b: "\<bar>yaw ((scene_start True 0)\<lparr>scene_focused := True\<rparr>)\<bar> \<le> 2 ^ 54"
    by (simp add: y)
  note t = C10_yaw_float_accumulation [of "\<lparr>ev_type = SDL_MOUSEMOTION, motion_xrel = 10000, motion_yrel = 0\<rparr>" "((scene_start True 0)\<lparr>scene_focused := True\<rparr>)" 1 0
      "[(\<lparr>ev_type = SDL_MOUSEMOTION, motion_xrel = 10000, motion_yrel = 0\<rparr>, 1), (\<lparr>ev_type = SDL_MOUSEMOTION, motion_xrel = 10000, motion_yrel = 0\<rparr>, 1)]"]
  from t c have "yaw (scene_processevent ((scene_start True 0)\<lparr>scene_focused := True\<rparr>) \<lparr>ev_type = SDL_MOUSEMOTION, motion_xrel = 10000, motion_yrel = 0\<rparr> 1) = yaw ((scene_start True 0)\<lparr>scene_focused := True\<rparr>) + 0.1 * real_of_int (sint (motion_xrel \<lparr>ev_type = SDL_MOUSEMOTION, motion_xrel = 10000, motion_yrel = 0\<rparr>))"
    by blast
  then have x: "yaw (scene_processevent ((scene_start True 0)\<lparr>scene_focused := True\<rparr>) \<lparr>ev_type = SDL_MOUSEMOTION, motion_xrel = 10000, motion_yrel = 0\<rparr> 1) = 910"
    by (simp add: y)
  from t b have r: "\<bar>yaw (scene_processevents_ieee ((scene_start True 0)\<lparr>scene_focused := True\<rparr>) [(\<lparr>ev_type = SDL_MOUSEMOTION, motion_xrel = 10000, motion_yrel = 0\<rparr>, 1), (\<lparr>ev_type = SDL_MOUSEMOTION, motion_xrel = 10000, motion_yrel = 0\<rparr>, 1)])\<bar> \<le> 2 ^ 54"
    by blast
  from c y big_event_yaw x b r show ?thesis by blast
qed

text \<open>
  C10 as stated has each such event give exactly yaw plus 0.1 times the delta, and has
  yaw exceed every bound after some run of events. On a focused panel at the start
  (yaw -90), with the left button held, a motion of 1 gives yaw -11783373/2^17, which
  is -89.90000152587890625 and not -89.9; and no run of events from there takes the
  absolute value of yaw above 2^54. Met with yaw 2^52, even the largest delta,
  2147483647, leaves yaw as it is; so does a delta of 1 met with yaw 2^24.
\<close>

theorem C10_yaw_float_counterexample:
  "yaw (scene_processevent_ieee ((scene_start True 0)\<lparr>scene_focused := True\<rparr>) \<lparr>ev_type = SDL_MOUSEMOTION, motion_xrel = 1, motion_yrel = 0\<rparr> 1) = - (11783373 / 2 ^ 17) \<and>
   yaw (scene_processevent_ieee ((scene_start True 0)\<lparr>scene_focused := True\<rparr>) \<lparr>ev_type = SDL_MOUSEMOTION, motion_xrel = 1, motion_yrel = 0\<rparr> 1)
     \<noteq> yaw ((scene_start True 0)\<lparr>scene_focused := True\<rparr>) + 0.1 * real_of_int (sint (motion_xrel \<lparr>ev_type = SDL_MOUSEMOTION, motion_xrel = 1, motion_yrel = 0\<rparr>)) \<and>
   \<not> (\<exists>es. list_all (\<lambda>(e, mouse). ev_type e = SDL_MOUSEMOTION \<and> mouse AND SDL_BUTTON_LMASK \<noteq> 0) es
          \<and> 2 ^ 54 < \<bar>yaw (scene_processevents_ieee ((scene_start True 0)\<lparr>scene_focused := True\<rparr>) es)\<bar>) \<and>
   yaw (scene_processevent_ieee (((scene_start True 0)\<lparr>scene_focused := True\<rparr>)\<lparr>yaw := 2 ^ 52\<rparr>) \<lparr>ev_type = SDL_MOUSEMOTION, motion_xrel = 2147483647, motion_yrel = 0\<rparr> 1) = 2 ^ 52 \<and>
   yaw (scene_processevent_ieee (((scene_start True 0)\<lparr>scene_focused := True\<rparr>)\<lparr>yaw := 2 ^ 24\<rparr>) \<lparr>ev_type = SDL_MOUSEMOTION, motion_xrel = 1, motion_yrel = 0\<rparr> 1) = 2 ^ 24"
proof -
  have y: "yaw ((scene_start True 0)\<lparr>scene_focused := True\<rparr>) = - 90"
    by (simp add: scene_start_def)
  have a: "yaw (scene_processevent_ieee ((scene_start True 0)\<lparr>scene_focused := True\<rparr>) \<lparr>ev_type = SDL_MOUSEMOTION, motion_xrel = 1, motion_yrel = 0\<rparr> 1)
     \<noteq> yaw ((scene_start True 0)\<lparr>scene_focused := True\<rparr>) + 0.1 * real_of_int (sint (motion_xrel \<lparr>ev_type = SDL_MOUSEMOTION, motion_xrel = 1, motion_yrel = 0\<rparr>))"
    unfolding first_event_yaw by (simp add: y)
  have "\<bar>yaw (scene_processevents_ieee ((scene_start True 0)\<lparr>scene_focused := True\<rparr>) es)\<bar> \<le> 2 ^ 54" for es
    by (rule yaw_ieee_run_bound) (simp add: y)
  then have b: "\<not> (\<exists>es. list_all (\<lambda>(e, mouse). ev_type e = SDL_MOUSEMOTION \<and> mouse AND SDL_BUTTON_LMASK \<noteq> 0) es
          \<and> 2 ^ 54 < \<bar>yaw (scene_processevents_ieee ((scene_start True 0)\<lparr>scene_focused := True\<rparr>) es)\<bar>)"
    by (auto simp add: not_less)
  from first_event_yaw a b absorbed_at_2_52 absorbed_at_2_24 show ?thesis by blast
qed

subsection \<open>The offscreen target\<close>

lemma scene_init_gl:
  "scene_tex (scene_init s) = Suc (gl_texture_names (gl s)) \<and>
   scene_fbo (scene_init s) = Suc (gl_framebuffer_names (gl s)) \<and>
   gl_tex_size (gl (scene_init s)) (Suc (gl_texture_names (gl s))) =
     Some (c_int_of_float (fst (scene_size s)), c_int_of_float (snd (scene_size s))) \<and>
   gl_color_attachment0 (gl (scene_init s)) (Suc (gl_framebuffer_names (gl s))) =
     Some (Suc (gl_texture_names (gl s)))"
  by (simp add: scene_init_def glGenFramebuffers_def glBindFramebuffer_def glGenTextures_def
      glBindTexture_def glTexImage2D_def glTexParameteri_def glFramebufferTexture2D_def)

text \<open>
  C7. \<open>scene_init\<close> creates a framebuffer and a texture under names not handed
  out before, gives the texture the panel size of the moment (converted to integers)
  and attaches it as colour attachment 0 of the framebuffer. At program start the
  panel size is (0, 0), and so is the size of the texture \<open>scene_init\<close> creates then;
  \<open>scene_init\<close>, \<open>scene_processevent\<close> and \<open>scene_update\<close> leave the panel size as
  it is (only \<open>scene_render\<close> writes it).
\<close>

theorem C7_init_allocates_target:
  "gl_framebuffer_names (gl s) < scene_fbo (scene_init s) \<and>
   gl_texture_names (gl s) < scene_tex (scene_init s) \<and>
   gl_tex_size (gl (scene_init s)) (scene_tex (scene_init s)) =
     Some (c_int_of_float (fst (scene_size s)), c_int_of_float (snd (scene_size s))) \<and>
   gl_color_attachment0 (gl (scene_init s)) (scene_fbo (scene_init s)) =
     Some (scene_tex (scene_init s)) \<and>
   scene_size (scene_start opn sel) = (0, 0) \<and>
   gl_tex_size (gl (scene_init (scene_start opn sel)))
     (scene_tex (scene_init (scene_start opn sel))) = Some (0, 0) \<and>
   scene_size (scene_init s) = scene_size s \<and>
   scene_size (scene_processevent s e mouse) = scene_size s \<and>
   scene_size (scene_update s keys) = scene_size s"
proof -
  have z: "scene_size (scene_start opn sel) = (0, 0)"
    by (simp add: scene_start_def)
  have "gl_tex_size (gl (scene_init (scene_start opn sel)))
     (scene_tex (scene_init (scene_start opn sel))) = Some (0, 0)"
    using scene_init_gl [of "scene_start opn sel"] by (simp add: z c_int_of_float_def)
  moreover have "scene_size (scene_init s) = scene_size s"
    by (simp add: scene_init_def split_def Let_def)
  moreover have "scene_size (scene_processevent s e mouse) = scene_size s"
    by (simp add: scene_processevent_def Let_def)
  moreover have "scene_size (scene_update s keys) = scene_size s"
    by (simp add: scene_update_def scene_update_target_def scene_update_move_def
        scene_update_dir_def Let_def)
  ultimately show ?thesis
    using z scene_init_gl [of s] by simp
qed

lemma scene_size_update_pre:
  "scene_size (scene_update_move (scene_update_dir s) keys) = scene_size s \<and>
   scene_tex (scene_update_move (scene_update_dir s) keys) = scene_tex s \<and>
   scene_fbo (scene_update_move (scene_update_dir s) keys) = scene_fbo s \<and>
   selected_entity (scene_update_move (scene_update_dir s) keys) = selected_entity s \<and>
   renderer_calls (scene_update_move (scene_update_dir s) keys) = renderer_calls s \<and>
   gl (scene_update_move (scene_update_dir s) keys) = gl s"
  by (simp add: scene_update_move_def scene_update_dir_def Let_def)

lemma target_tex_size:
  "gl_tex_size (gl (scene_update_target s)) (scene_tex s) =
     Some (c_int_of_float (fst (scene_size s)), c_int_of_float (snd (scene_size s)))"
  by (simp add: scene_update_target_def Let_def glBindTexture_def glTexImage2D_def
      glBindFramebuffer_def)

lemma target_calls:
  "renderer_calls (scene_update_target s) =
     renderer_calls s @
       [Renderer_resize (fst (scene_size s)) (snd (scene_size s)),
        Renderer_render (scene_fbo s) (cam_pos s) (cam_dir s) 90
          (fst (scene_size s)) (snd (scene_size s)) (selected_entity s) True]"
  by (simp add: scene_update_target_def Let_def)

lemma update_tex_size:
  "gl_tex_size (gl (scene_update s keys)) (scene_tex s) =
     Some (c_int_of_float (fst (scene_size s)), c_int_of_float (snd (scene_size s)))"
  using target_tex_size [of "scene_update_move (scene_update_dir s) keys"]
  by (simp add: scene_update_def scene_size_update_pre)

lemma update_calls:
  "renderer_calls (scene_update s keys) =
     renderer_calls s @
       [Renderer_resize (fst (scene_size s)) (snd (scene_size s)),
        Renderer_render (scene_fbo s) (cam_pos (scene_update s keys))
          (cam_dir (scene_update s keys)) 90
          (fst (scene_size s)) (snd (scene_size s)) (selected_entity s) True]"
  by (simp add: scene_update_def target_calls scene_size_update_pre cam_pos_target cam_dir_target)

lemma render_size:
  "scene_open s \<Longrightarrow> ig_begin_visible f \<Longrightarrow>
   scene_size (scene_render s title get_entity f) = ig_window_size f \<and>
   scene_tex (scene_render s title get_entity f) = scene_tex s"
  by (simp add: scene_render_def Let_def)


text \<open>
  C6. Every \<open>scene_update\<close> gives the offscreen texture the panel size of the
  moment (converted to integers) and calls \<open>renderer_resize\<close> with that size, before
  it calls \<open>renderer_render\<close> with the same size. A \<open>scene_render\<close> of an open
  panel whose window is visible records the window size as the panel size, so the
  update that follows sizes the texture to the new window size.
\<close>

theorem C6_update_resizes_target:
  "gl_tex_size (gl (scene_update s keys)) (scene_tex s) =
     Some (c_int_of_float (fst (scene_size s)), c_int_of_float (snd (scene_size s))) \<and>
   renderer_calls (scene_update s keys) =
     renderer_calls s @
       [Renderer_resize (fst (scene_size s)) (snd (scene_size s)),
        Renderer_render (scene_fbo s) (cam_pos (scene_update s keys))
          (cam_dir (scene_update s keys)) 90
          (fst (scene_size s)) (snd (scene_size s)) (selected_entity s) True] \<and>
   (scene_open s \<and> ig_begin_visible f \<longrightarrow>
      scene_size (scene_render s title get_entity f) = ig_window_size f \<and>
      gl_tex_size (gl (scene_update (scene_render s title get_entity f) keys)) (scene_tex s) =
        Some (c_int_of_float (fst (ig_window_size f)), c_int_of_float (snd (ig_window_size f))))"
proof (intro conjI impI)
  show "gl_tex_size (gl (scene_update s keys)) (scene_tex s) =
     Some (c_int_of_float (fst (scene_size s)), c_int_of_float (snd (scene_size s)))"
    by (rule update_tex_size)
  show "renderer_calls (scene_update s keys) =
     renderer_calls s @
       [Renderer_resize (fst (scene_size s)) (snd (scene_size s)),
        Renderer_render (scene_fbo s) (cam_pos (scene_update s keys))
          (cam_dir (scene_update s keys)) 90
          (fst (scene_size s)) (snd (scene_size s)) (selected_entity s) True]"
    by (rule update_calls)
next
  assume a: "scene_open s \<and> ig_begin_visible f"
  then have r: "scene_size (scene_render s title get_entity f) = ig_window_size f \<and>
      scene_tex (scene_render s title get_entity f) = scene_tex s"
    by (simp add: render_size)
  from r show "scene_size (scene_render s title get_entity f) = ig_window_size f"
    by simp
  from r update_tex_size [of "scene_render s title get_entity f" keys]
  show "gl_tex_size (gl (scene_update (scene_render s title get_entity f) keys)) (scene_tex s) =
        Some (c_int_of_float (fst (ig_window_size f)), c_int_of_float (snd (ig_window_size f)))"
    by simp
qed

theorem C6_update_resizes_target_witness:
  "scene_open (scene_init (scene_start True 0)) \<and>
   ig_begin_visible \<lparr>ig_begin_visible = True, ig_close_pressed = False,
      ig_window_size = (800, 600), ig_window_focused = True\<rparr> \<and>
   gl_tex_size (gl (scene_init (scene_start True 0))) (scene_tex (scene_init (scene_start True 0)))
     = Some (0, 0) \<and>
   gl_tex_size
     (gl (scene_update
        (scene_render (scene_init (scene_start True 0)) ''Scene''
           (\<lambda>i. \<lparr>ent_name = ''cube'', ent_id = i\<rparr>)
           \<lparr>ig_begin_visible = True, ig_close_pressed = False,
            ig_window_size = (800, 600), ig_window_focused = True\<rparr>)
        (\<lambda>k. 0)))
     (scene_tex (scene_init (scene_start True 0)))
   = Some (800, 600)"
proof -
  have h: "scene_open (scene_init (scene_start True 0)) \<and>
   ig_begin_visible \<lparr>ig_begin_visible = True, ig_close_pressed = False,
      ig_window_size = (800, 600), ig_window_focused = True\<rparr>"
    by (simp add: scene_init_def scene_start_def split_def Let_def)
  have z: "gl_tex_size (gl (scene_init (scene_start True 0)))
      (scene_tex (scene_init (scene_start True 0))) = Some (0, 0)"
    using scene_init_gl [of "scene_start True 0"] by (simp add: scene_start_def c_int_of_float_def)
  from h z C6_update_resizes_target [of "scene_init (scene_start True 0)" "\<lambda>k. 0"
      "\<lparr>ig_begin_visible = True, ig_close_pressed = False,
        ig_window_size = (800, 600), ig_window_focused = True\<rparr>"
      "''Scene''" "\<lambda>i. \<lparr>ent_name = ''cube'', ent_id = i\<rparr>"]
  show ?thesis
    by (simp add: c_int_of_float_def)
qed

subsection \<open>The overlay\<close>

lemma render_texts:
  "filter is_IgText (ig_calls (scene_render s title get_entity f)) =
     filter is_IgText (ig_calls s) @
       (if scene_open s \<and> ig_begin_visible f
        then [if selected_entity s \<ge> 0
              then IgText ''%s (%i)''
                     [Arg_string (ent_name (get_entity (selected_entity s))),
                      Arg_int (ent_id (get_entity (selected_entity s)))]
              else IgText ''No entity selected.'' []]
        else [])"
proof (cases "scene_open s")
  case False
  then show ?thesis by (simp add: scene_render_def)
next
  case opn: True
  show ?thesis
  proof (cases "ig_begin_visible f")
    case False
    with opn show ?thesis by (simp add: scene_render_def Let_def)
  next
    case vis: True
    show ?thesis
    proof (cases "selected_entity s \<ge> 0")
      case True
      with opn vis show ?thesis by (simp add: scene_render_def Let_def)
    next
      case False
      with opn vis show ?thesis by (simp add: scene_render_def Let_def)
    qed
  qed
qed

text \<open>
  C8, as the code has it. When the panel is open and \<open>igBegin\<close> reports its window
  visible, \<open>scene_render\<close> draws exactly one overlay text: name and id of the entity
  \<open>get_entity\<close> returns when \<open>selected_entity\<close> is at least 0, the text
  "No entity selected." otherwise. When the panel is closed or its window is not
  visible it draws no overlay text.
\<close>

theorem C8_overlay:
  "filter is_IgText (ig_calls (scene_render s title get_entity f)) =
     filter is_IgText (ig_calls s) @
       (if scene_open s \<and> ig_begin_visible f
        then [if selected_entity s \<ge> 0
              then IgText ''%s (%i)''
                     [Arg_string (ent_name (get_entity (selected_entity s))),
                      Arg_int (ent_id (get_entity (selected_entity s)))]
              else IgText ''No entity selected.'' []]
        else [])"
  by (rule render_texts)

text \<open>
  C8 as stated has one overlay drawn by every \<open>scene_render\<close>. With a selected
  entity, a panel whose window \<open>igBegin\<close> reports as not visible gets no overlay
  text, and a closed panel makes no ImGui call at all.
\<close>

theorem C8_no_overlay_counterexample:
  "filter is_IgText
     (ig_calls (scene_render ((scene_start True 0)\<lparr>selected_entity := 3\<rparr>) ''Scene''
        (\<lambda>i. \<lparr>ent_name = ''cube'', ent_id = i\<rparr>)
        \<lparr>ig_begin_visible = False, ig_close_pressed = False,
         ig_window_size = (800, 600), ig_window_focused = False\<rparr>)) = [] \<and>
   ig_calls (scene_render ((scene_start False 0)\<lparr>selected_entity := 3\<rparr>) ''Scene''
        (\<lambda>i. \<lparr>ent_name = ''cube'', ent_id = i\<rparr>)
        \<lparr>ig_begin_visible = True, ig_close_pressed = False,
         ig_window_size = (800, 600), ig_window_focused = True\<rparr>) = []"
  by (simp add: scene_render_def scene_start_def Let_def)

end
